theory Spec2Isabelle
  imports Complex_Main
begin

section \<open>Values shared by both subsystems\<close>

text \<open>
  A value of TypeScript type \<open>any\<close> (an answer, an interaction payload, the data tree of a
  content store) is kept as a JSON tree. A JavaScript \<open>number\<close> supplied by a caller is a
  rational; millisecond readings of \<open>Date.now()\<close> and their differences are integers.
\<close>

type_synonym number = rat

datatype json =
    JNull
  | JBool bool
  | JNum number
  | JStr string
  | JArr "json list"
  | JObj "(string \<times> json) list"

section \<open>The registered-content store (registeredContentStore)\<close>

record RegisteredContentDto =
  dto_id :: string
  dto_jsonFilePath :: string
  dto_storeFilePath :: string
  dto_componentPath :: string
  dto_data :: json

record RegisteredContent =
  rc_id :: string
  rc_jsonFilePath :: string
  rc_storeFilePath :: string
  rc_componentPath :: string
  rc_data :: json

record InitPayload =
  ip_storeId :: string
  ip_jsonFilePath :: string
  ip_storeFilePath :: string
  ip_componentPath :: string
  ip_data :: json

record InlineUpdatePayload =
  up_storeId :: string
  up_jsonFilePath :: string
  up_componentPath :: string
  up_storeFilePath :: string
  up_path :: string
  up_value :: json

text \<open>The two messages the store posts to \<open>window.parent\<close>, tagged by their \<open>type\<close> field.\<close>

datatype EditorMessage =
    EditorInit InitPayload
  | EditorInlineUpdate InlineUpdatePayload

text \<open>
  The part of \<open>window\<close> the store touches: the registry \<open>window.registeredContents\<close>
  (a \<open>Map\<close> from store id to instance) and the messages posted to \<open>window.parent\<close>, oldest
  first. The module's last lines install an empty registry.
\<close>

record ContentWindow =
  registeredContents :: "string \<rightharpoonup> RegisteredContent"
  parentMessages :: "EditorMessage list"

definition initial_window :: ContentWindow where
  "initial_window = \<lparr> registeredContents = Map.empty, parentMessages = [] \<rparr>"

text \<open>
  \<open>new RegisteredContent(dto)\<close>: the five fields are copied from the dto; if the registry
  already has the id the constructor returns at once, otherwise it records the instance
  and posts \<open>editor:init\<close>. The result is the new instance and the window after the call.
\<close>

definition new_RegisteredContent ::
  "RegisteredContentDto \<Rightarrow> ContentWindow \<Rightarrow> RegisteredContent \<times> ContentWindow" where
  "new_RegisteredContent dto w =
     (let this = \<lparr> rc_id = dto_id dto,
                   rc_jsonFilePath = dto_jsonFilePath dto,
                   rc_storeFilePath = dto_storeFilePath dto,
                   rc_componentPath = dto_componentPath dto,
                   rc_data = dto_data dto \<rparr>
      in if registeredContents w (rc_id this) \<noteq> None then (this, w)
         else (this,
               w\<lparr> registeredContents := (registeredContents w)(rc_id this \<mapsto> this),
                  parentMessages := parentMessages w @
                    [EditorInit \<lparr> ip_storeId = rc_id this,
                                  ip_jsonFilePath = rc_jsonFilePath this,
                                  ip_storeFilePath = rc_storeFilePath this,
                                  ip_componentPath = rc_componentPath this,
                                  ip_data = rc_data this \<rparr>] \<rparr>))"

definition emitInlineEditEvent ::
  "RegisteredContent \<Rightarrow> string \<Rightarrow> json \<Rightarrow> ContentWindow \<Rightarrow> ContentWindow" where
  "emitInlineEditEvent this path v w =
     w\<lparr> parentMessages := parentMessages w @
          [EditorInlineUpdate \<lparr> up_storeId = rc_id this,
                                 up_jsonFilePath = rc_jsonFilePath this,
                                 up_componentPath = rc_componentPath this,
                                 up_storeFilePath = rc_storeFilePath this,
                                 up_path = path,
                                 up_value = v \<rparr>] \<rparr>"

definition inlineUpdateRegisteredContent ::
  "string \<Rightarrow> string \<Rightarrow> json \<Rightarrow> ContentWindow \<Rightarrow> ContentWindow" where
  "inlineUpdateRegisteredContent storeId path v w =
     (case registeredContents w storeId of
        None \<Rightarrow> w
      | Some store \<Rightarrow> emitInlineEditEvent store path v w)"

text \<open>The \<open>editor:init\<close> message that announces an instance.\<close>

definition init_message :: "RegisteredContent \<Rightarrow> EditorMessage" where
  "init_message this =
     EditorInit \<lparr> ip_storeId = rc_id this,
                  ip_jsonFilePath = rc_jsonFilePath this,
                  ip_storeFilePath = rc_storeFilePath this,
                  ip_componentPath = rc_componentPath this,
                  ip_data = rc_data this \<rparr>"

section \<open>Analytics event types (blockAnalytics)\<close>

datatype SessionEventType = SessionStarted | SessionCompleted | SessionAbandoned

datatype InteractionType =
  Click | Input | Drag | Scroll | Hover | Focus | Blur | Submit | Select

datatype QuestionEventType = QStarted | QAnswered | QSkipped | QReviewed

datatype QuestionType =
  MultipleChoice | TrueFalse | FillBlank | Essay | Matching | Ordering

datatype SlideEventType = SlideViewed | SlideCompleted | SlideSkipped

text \<open>
  Each interface becomes a record; its constant \<open>type\<close> tag is the constructor of
  \<open>BlockAnalyticsEvent\<close> below. An optional property (\<open>p?: T\<close>) is a \<open>T option\<close>, with
  \<open>None\<close> for an absent or \<open>undefined\<close> property.
\<close>

record InteractionEvent =
  ie_interactionType :: InteractionType
  ie_blockId :: "string option"
  ie_sessionId :: string
  ie_elementId :: "string option"
  ie_elementType :: "string option"
  ie_timestamp :: int
  ie_duration :: "number option"
  ie_data :: "json option"

record QuestionEvent =
  qe_eventType :: QuestionEventType
  qe_blockId :: "string option"
  qe_sessionId :: string
  qe_questionId :: string
  qe_questionType :: QuestionType
  qe_questionText :: "string option"
  qe_timestamp :: int
  qe_timeToAnswer :: "int option"
  qe_answer :: "json option"
  qe_correctAnswer :: "json option"
  qe_isCorrect :: "bool option"
  qe_score :: "number option"
  qe_maxScore :: "number option"
  qe_attemptNumber :: "number option"
  qe_hintsUsed :: "number option"
  qe_confidenceLevel :: "number option"

record SlideViewEvent =
  sv_slideId :: string
  sv_courseId :: "string option"
  sv_sessionId :: string
  sv_eventType :: SlideEventType
  sv_timestamp :: int
  sv_timeSpent :: int
  sv_slideType :: "string option"
  sv_slideTitle :: "string option"
  sv_scrollDepth :: "number option"
  sv_mediaProgress :: "number option"
  sv_interactionCount :: "number option"

record SessionSummary =
  sm_completed :: bool
  sm_score :: "number option"
  sm_maxScore :: "number option"
  sm_timeSpent :: int
  sm_totalInteractions :: nat
  sm_questionsAttempted :: "nat option"
  sm_questionsCorrect :: "nat option"
  sm_questionsIncorrect :: "nat option"
  sm_questionsSkipped :: "nat option"
  sm_slidesViewed :: "nat option"
  sm_averageTimePerQuestion :: "number option"
  sm_averageTimePerSlide :: "number option"
  sm_accuracyRate :: "number option"
  sm_hintsUsedTotal :: "number option"
  sm_attemptsTotal :: "number option"

record SessionDetails =
  dt_interactions :: "InteractionEvent list option"
  dt_questions :: "QuestionEvent list option"
  dt_slides :: "SlideViewEvent list option"

record BlockSessionEvent =
  se_eventType :: SessionEventType
  se_blockId :: "string option"
  se_slideId :: "string option"
  se_courseId :: "string option"
  se_sessionId :: string
  se_timestamp :: int
  se_summary :: SessionSummary
  se_details :: "SessionDetails option"

text \<open>
  The interface \<open>LegacyBlockCompletionEvent\<close> declares \<open>timestamp: number\<close> as required
  and has no \<open>sessionId\<close>. The field is an option here because the object the tracker
  builds (see \<open>sendLegacyCompletion\<close>) has no such property.
\<close>

record LegacyBlockCompletionEvent =
  lc_completed :: bool
  lc_score :: "number option"
  lc_maxScore :: "number option"
  lc_timeSpent :: "int option"
  lc_timestamp :: "int option"
  lc_data :: "json option"

datatype BlockAnalyticsEvent =
    BLOCK_INTERACTION InteractionEvent
  | BLOCK_QUESTION QuestionEvent
  | BLOCK_SESSION BlockSessionEvent
  | SLIDE_VIEW SlideViewEvent
  | BLOCK_COMPLETION LegacyBlockCompletionEvent

text \<open>Reading the properties \<open>timestamp\<close> and \<open>sessionId\<close> off an event object.\<close>

fun event_timestamp :: "BlockAnalyticsEvent \<Rightarrow> int option" where
  "event_timestamp (BLOCK_INTERACTION e) = Some (ie_timestamp e)"
| "event_timestamp (BLOCK_QUESTION e) = Some (qe_timestamp e)"
| "event_timestamp (BLOCK_SESSION e) = Some (se_timestamp e)"
| "event_timestamp (SLIDE_VIEW e) = Some (sv_timestamp e)"
| "event_timestamp (BLOCK_COMPLETION e) = lc_timestamp e"

fun event_sessionId :: "BlockAnalyticsEvent \<Rightarrow> string option" where
  "event_sessionId (BLOCK_INTERACTION e) = Some (ie_sessionId e)"
| "event_sessionId (BLOCK_QUESTION e) = Some (qe_sessionId e)"
| "event_sessionId (BLOCK_SESSION e) = Some (se_sessionId e)"
| "event_sessionId (SLIDE_VIEW e) = Some (sv_sessionId e)"
| "event_sessionId (BLOCK_COMPLETION e) = None"

record BlockTrackerConfig =
  opt_blockId :: "string option"
  opt_slideId :: "string option"
  opt_courseId :: "string option"
  opt_trackInteractions :: "bool option"
  opt_trackQuestions :: "bool option"
  opt_sendDetailedEvents :: "bool option"
  opt_sendSummaryEvent :: "bool option"
  opt_sendLegacyEvent :: "bool option"
  opt_interactionDebounce :: "number option"
  opt_progressUpdateInterval :: "number option"
  opt_persistSession :: "bool option"
  opt_sessionStorageKey :: "string option"

text \<open>\<open>Required<BlockTrackerConfig>\<close>: the configuration after the defaults are filled in.\<close>

record RequiredConfig =
  cfg_blockId :: string
  cfg_slideId :: string
  cfg_courseId :: string
  cfg_trackInteractions :: bool
  cfg_trackQuestions :: bool
  cfg_sendDetailedEvents :: bool
  cfg_sendSummaryEvent :: bool
  cfg_sendLegacyEvent :: bool
  cfg_interactionDebounce :: number
  cfg_progressUpdateInterval :: number
  cfg_persistSession :: bool
  cfg_sessionStorageKey :: string

record SessionState =
  sessionId :: string
  blockId :: "string option"
  startTime :: int
  interactions :: "InteractionEvent list"
  questions :: "QuestionEvent list"
  slides :: "SlideViewEvent list"
  currentQuestionId :: "string option"
  currentQuestionStartTime :: "int option"
  totalInteractions :: nat
  totalQuestions :: nat
  correctQuestions :: nat

section \<open>The browser environment of a tracker\<close>

text \<open>
  What the tracker does to the page is kept as a list of effects, oldest first: a message
  delivered by \<open>window.postMessage\<close> or \<open>window.parent.postMessage\<close>, a call of a
  registered listener (named by its function reference), a \<open>console.warn\<close>.
\<close>

datatype target = Self | Parent

datatype effect =
    PostMessage target BlockAnalyticsEvent
  | Invoke nat BlockAnalyticsEvent
  | Warn string

datatype exn = DataCloneError | SenderError nat | StorageError | SyntaxError | TypeError

datatype storage_op = GetItem | SetItem | RemoveItem

text \<open>
  \<open>localStorage\<close> holds strings. A stored string is kept as what the restore path makes
  of it: the empty string (falsy), a string \<open>JSON.parse\<close> rejects, the text \<open>null\<close>,
  the serialisation of a session state, or any other JSON value. \<open>JSON.stringify\<close> of a
  session state followed by \<open>JSON.parse\<close> gives the state back, since a state here holds
  JSON data only.

  Of a JSON value that is not a session state the model keeps the \<open>blockId\<close> property
  (\<open>None\<close> when the value has none, or one that is not a string) and takes \<open>questions\<close>
  not to be an array, as in the record \<open>{"blockId": "quiz"}\<close>: the cast \<open>as SessionState\<close>
  lets such a value through, and the first use of \<open>this.state.questions\<close> throws. A value
  that has a \<open>questions\<close> array and lacks other properties passes the same check; the
  tracker built on it has no \<open>SessionState\<close> and is not described here.
\<close>

datatype stored =
    EmptyString
  | NotJson
  | JsonNull
  | Snapshot SessionState
  | Fragment "string option"

text \<open>What \<open>this.state\<close> holds after the cast: a session state, or such a fragment.\<close>

datatype session_value = FullState SessionState | FragmentState "string option"

text \<open>
  The environment also answers what the code cannot decide: whether a storage access or
  a \<open>postMessage\<close> throws, whether a listener throws on an event, what \<open>Date.now()\<close>
  and \<open>Math.random().toString(36).substring(2, 9)\<close> return at each successive read.
\<close>

record env =
  localStorage :: "string \<rightharpoonup> stored"
  localStorage_throws :: "storage_op \<Rightarrow> bool"
  postMessage_throws :: "target \<Rightarrow> BlockAnalyticsEvent \<Rightarrow> bool"
  sender_throws :: "nat \<Rightarrow> BlockAnalyticsEvent \<Rightarrow> bool"
  effects :: "effect list"
  date_now :: "nat \<Rightarrow> int"
  now_reads :: nat
  math_random :: "nat \<Rightarrow> string"
  random_reads :: nat
  intervals :: "nat list"
  interval_seq :: nat
  windowListeners :: "string list"

record BlockTracker =
  config :: RequiredConfig
  state :: SessionState
  isCompleted :: bool
  eventSenders :: "nat list"
  progressTimer :: "nat option"

subsection \<open>Statements that may throw\<close>

text \<open>
  A statement maps a state to the state it leaves and, when it throws, the exception.
  \<open>proc_seq\<close> is \<open>;\<close> (a throw skips what follows), \<open>try_catch\<close> is
  \<open>try { p } catch (error) { h error }\<close>, \<open>forEach\<close> is \<open>Array.prototype.forEach\<close>.
\<close>

type_synonym 's proc = "'s \<Rightarrow> exn option \<times> 's"

definition proc_skip :: "'s proc" where
  "proc_skip s = (None, s)"

definition proc_seq :: "'s proc \<Rightarrow> 's proc \<Rightarrow> 's proc" where
  "proc_seq p q s = (case p s of (None, s') \<Rightarrow> q s' | (Some x, s') \<Rightarrow> (Some x, s'))"

definition try_catch :: "'s proc \<Rightarrow> (exn \<Rightarrow> 's proc) \<Rightarrow> 's proc" where
  "try_catch p h s = (case p s of (None, s') \<Rightarrow> (None, s') | (Some x, s') \<Rightarrow> h x s')"

definition proc_when :: "bool \<Rightarrow> 's proc \<Rightarrow> 's proc" where
  "proc_when b p = (if b then p else proc_skip)"

fun forEach :: "('a \<Rightarrow> 's proc) \<Rightarrow> 'a list \<Rightarrow> 's proc" where
  "forEach f [] s = (None, s)"
| "forEach f (x # xs) s = proc_seq (f x) (forEach f xs) s"

text \<open>A method body runs on the tracker \<open>this\<close> and the environment.\<close>

definition on_env :: "(BlockTracker \<Rightarrow> env proc) \<Rightarrow> (BlockTracker \<times> env) proc" where
  "on_env f = (\<lambda>(this, e). case f this e of (r, e') \<Rightarrow> (r, (this, e')))"

subsection \<open>Primitives of the page\<close>

definition record_effect :: "effect \<Rightarrow> env \<Rightarrow> env" where
  "record_effect x e = e\<lparr> effects := effects e @ [x] \<rparr>"

definition console_warn :: "string \<Rightarrow> env proc" where
  "console_warn msg e = (None, record_effect (Warn msg) e)"

definition postMessage :: "target \<Rightarrow> BlockAnalyticsEvent \<Rightarrow> env proc" where
  "postMessage tgt event e =
     (if postMessage_throws e tgt event then (Some DataCloneError, e)
      else (None, record_effect (PostMessage tgt event) e))"

text \<open>
  Calling a listener: the call happens, then it returns or throws. A listener is known
  by its function reference and does not call back into the tracker.
\<close>

definition call_sender :: "nat \<Rightarrow> BlockAnalyticsEvent \<Rightarrow> env proc" where
  "call_sender sender event e =
     (if sender_throws e sender event
      then (Some (SenderError sender), record_effect (Invoke sender event) e)
      else (None, record_effect (Invoke sender event) e))"

definition localStorage_setItem :: "string \<Rightarrow> stored \<Rightarrow> env proc" where
  "localStorage_setItem key v e =
     (if localStorage_throws e SetItem then (Some StorageError, e)
      else (None, e\<lparr> localStorage := (localStorage e)(key \<mapsto> v) \<rparr>))"

definition localStorage_removeItem :: "string \<Rightarrow> env proc" where
  "localStorage_removeItem key e =
     (if localStorage_throws e RemoveItem then (Some StorageError, e)
      else (None, e\<lparr> localStorage := (localStorage e)(key := None) \<rparr>))"

definition Date_now :: "env \<Rightarrow> int \<times> env" where
  "Date_now e = (date_now e (now_reads e), e\<lparr> now_reads := Suc (now_reads e) \<rparr>)"

definition Math_random :: "env \<Rightarrow> string \<times> env" where
  "Math_random e = (math_random e (random_reads e), e\<lparr> random_reads := Suc (random_reads e) \<rparr>)"

text \<open>\<open>window.setInterval\<close> hands out a fresh positive id; \<open>clearInterval\<close> retires it.\<close>

definition setInterval :: "env \<Rightarrow> nat \<times> env" where
  "setInterval e =
     (Suc (interval_seq e),
      e\<lparr> intervals := intervals e @ [Suc (interval_seq e)],
         interval_seq := Suc (interval_seq e) \<rparr>)"

definition clearInterval :: "nat \<Rightarrow> env proc" where
  "clearInterval i e = (None, e\<lparr> intervals := removeAll i (intervals e) \<rparr>)"

text \<open>Decimal text of a number inside a template literal.\<close>

fun show_nat :: "nat \<Rightarrow> string" where
  "show_nat n =
     (if n < 10 then [''0123456789'' ! n]
      else show_nat (n div 10) @ [''0123456789'' ! (n mod 10)])"

declare show_nat.simps [simp del]

definition show_int :: "int \<Rightarrow> string" where
  "show_int i = (if i < 0 then ''-'' @ show_nat (nat (- i)) else show_nat (nat i))"

section \<open>The session tracker (BlockTracker)\<close>

subsection \<open>Private methods\<close>

text \<open>The constructor's defaults: \<open>||\<close> replaces a falsy value, \<open>??\<close> an absent one.\<close>

definition or_empty :: "string option \<Rightarrow> string" where
  "or_empty s = (case s of None \<Rightarrow> '''' | Some v \<Rightarrow> v)"

definition default_config :: "BlockTrackerConfig \<Rightarrow> RequiredConfig" where
  "default_config c =
     \<lparr> cfg_blockId = or_empty (opt_blockId c),
       cfg_slideId = or_empty (opt_slideId c),
       cfg_courseId = or_empty (opt_courseId c),
       cfg_trackInteractions = (case opt_trackInteractions c of None \<Rightarrow> True | Some b \<Rightarrow> b),
       cfg_trackQuestions = (case opt_trackQuestions c of None \<Rightarrow> True | Some b \<Rightarrow> b),
       cfg_sendDetailedEvents = (case opt_sendDetailedEvents c of None \<Rightarrow> True | Some b \<Rightarrow> b),
       cfg_sendSummaryEvent = (case opt_sendSummaryEvent c of None \<Rightarrow> True | Some b \<Rightarrow> b),
       cfg_sendLegacyEvent = (case opt_sendLegacyEvent c of None \<Rightarrow> True | Some b \<Rightarrow> b),
       cfg_interactionDebounce = (case opt_interactionDebounce c of None \<Rightarrow> 100 | Some n \<Rightarrow> n),
       cfg_progressUpdateInterval =
         (case opt_progressUpdateInterval c of None \<Rightarrow> 5000 | Some n \<Rightarrow> n),
       cfg_persistSession = (case opt_persistSession c of None \<Rightarrow> False | Some b \<Rightarrow> b),
       cfg_sessionStorageKey =
         (case opt_sessionStorageKey c of
            None \<Rightarrow> ''blockTracker_'' @
                     (if or_empty (opt_blockId c) = '''' then ''anonymous''
                      else or_empty (opt_blockId c))
          | Some k \<Rightarrow> k) \<rparr>"

text \<open>
  The \<open>try\<close> block of \<open>restoreOrCreateSession\<close>: it returns the parsed value when
  its \<open>blockId\<close> is the configured one (whatever else the value holds), falls out of the
  block, or throws (\<open>getItem\<close> failing, \<open>JSON.parse\<close> rejecting the text, or the
  property read \<open>state.blockId\<close> on \<open>null\<close>).
\<close>

datatype 'a completion = Return 'a | Fallthrough | Raise exn

definition try_restore :: "RequiredConfig \<Rightarrow> env \<Rightarrow> session_value completion" where
  "try_restore cfg e =
     (if localStorage_throws e GetItem then Raise StorageError
      else case localStorage e (cfg_sessionStorageKey cfg) of
             None \<Rightarrow> Fallthrough
           | Some EmptyString \<Rightarrow> Fallthrough
           | Some NotJson \<Rightarrow> Raise SyntaxError
           | Some JsonNull \<Rightarrow> Raise TypeError
           | Some (Snapshot st) \<Rightarrow>
               if blockId st = Some (cfg_blockId cfg) then Return (FullState st)
               else Fallthrough
           | Some (Fragment b) \<Rightarrow>
               if b = Some (cfg_blockId cfg) then Return (FragmentState b)
               else Fallthrough)"

text \<open>The object literal after the \<open>// Create new session\<close> comment.\<close>

definition create_session :: "RequiredConfig \<Rightarrow> env \<Rightarrow> SessionState \<times> env" where
  "create_session cfg e =
     (let (t1, e1) = Date_now e;
          (r, e2) = Math_random e1;
          (t2, e3) = Date_now e2
      in (\<lparr> sessionId = ''session_'' @ show_int t1 @ ''_'' @ r,
            blockId = Some (cfg_blockId cfg),
            startTime = t2,
            interactions = [],
            questions = [],
            slides = [],
            currentQuestionId = None,
            currentQuestionStartTime = None,
            totalInteractions = 0,
            totalQuestions = 0,
            correctQuestions = 0 \<rparr>, e3))"

definition restoreOrCreateSession :: "RequiredConfig \<Rightarrow> env \<Rightarrow> session_value \<times> env" where
  "restoreOrCreateSession cfg e =
     (case (if cfg_persistSession cfg then try_restore cfg e else Fallthrough) of
        Return v \<Rightarrow> (v, e)
      | Fallthrough \<Rightarrow>
          (let (st, e') = create_session cfg e in (FullState st, e'))
      | Raise error \<Rightarrow>
          (let (st, e') = create_session cfg
                            (record_effect (Warn ''[BlockTracker] Failed to restore session:'') e)
           in (FullState st, e')))"

definition persistSession :: "BlockTracker \<Rightarrow> env proc" where
  "persistSession this =
     (if \<not> cfg_persistSession (config this) then proc_skip
      else try_catch
             (localStorage_setItem (cfg_sessionStorageKey (config this)) (Snapshot (state this)))
             (\<lambda>error. console_warn ''[BlockTracker] Failed to persist session:''))"

definition clearPersistedSession :: "BlockTracker \<Rightarrow> env proc" where
  "clearPersistedSession this =
     (if \<not> cfg_persistSession (config this) then proc_skip
      else try_catch
             (localStorage_removeItem (cfg_sessionStorageKey (config this)))
             (\<lambda>error. console_warn ''[BlockTracker] Failed to clear session:''))"

definition sendEvent :: "BlockAnalyticsEvent \<Rightarrow> BlockTracker \<Rightarrow> env proc" where
  "sendEvent event this =
     proc_seq
       (try_catch
          (proc_seq (postMessage Self event) (postMessage Parent event))
          (\<lambda>error. console_warn ''[BlockTracker] Failed to send postMessage:''))
       (forEach
          (\<lambda>sender. try_catch (call_sender sender event)
                       (\<lambda>error. console_warn ''[BlockTracker] Event sender error:''))
          (eventSenders this))"

text \<open>The optional \<open>data\<close> argument of \<open>sendSessionEvent\<close>.\<close>

record SessionEventData =
  sd_score :: "number option"
  sd_maxScore :: "number option"
  sd_timeSpent :: "int option"
  sd_additionalData :: "json option"

text \<open>
  The \<open>summary\<close> literal of \<open>sendSessionEvent\<close>. \<open>q.isCorrect\<close> is truthy exactly when
  it is \<open>true\<close>; \<open>q.timeToAnswer || 0\<close> and \<open>q.hintsUsed || 0\<close> read an absent value
  as 0.
\<close>

definition session_summary ::
  "SessionEventType \<Rightarrow> SessionEventData option \<Rightarrow> int \<Rightarrow> SessionState \<Rightarrow> SessionSummary" where
  "session_summary eventType data timeSpent st =
     (let answeredQuestions = filter (\<lambda>q. qe_eventType q = QAnswered) (questions st);
          correctQuestions = filter (\<lambda>q. qe_isCorrect q = Some True) answeredQuestions;
          incorrectQuestions = filter (\<lambda>q. \<not> (qe_isCorrect q = Some True)) answeredQuestions;
          skippedQuestions = filter (\<lambda>q. qe_eventType q = QSkipped) (questions st)
      in \<lparr> sm_completed = (eventType = SessionCompleted),
           sm_score = Option.bind data sd_score,
           sm_maxScore = Option.bind data sd_maxScore,
           sm_timeSpent = timeSpent,
           sm_totalInteractions = totalInteractions st,
           sm_questionsAttempted = Some (length answeredQuestions + length skippedQuestions),
           sm_questionsCorrect = Some (length correctQuestions),
           sm_questionsIncorrect = Some (length incorrectQuestions),
           sm_questionsSkipped = Some (length skippedQuestions),
           sm_slidesViewed = None,
           sm_averageTimePerQuestion =
             (if length answeredQuestions > 0
              then Some (of_int (foldl (\<lambda>sum q. sum + (case qe_timeToAnswer q of
                                                          None \<Rightarrow> 0 | Some t \<Rightarrow> t))
                                       0 answeredQuestions)
                         / of_nat (length answeredQuestions))
              else None),
           sm_averageTimePerSlide = None,
           sm_accuracyRate =
             (if length answeredQuestions > 0
              then Some (of_nat (length correctQuestions) / of_nat (length answeredQuestions))
              else None),
           sm_hintsUsedTotal =
             Some (foldl (\<lambda>sum q. sum + (case qe_hintsUsed q of None \<Rightarrow> 0 | Some h \<Rightarrow> h))
                         0 (questions st)),
           sm_attemptsTotal = None \<rparr>)"

text \<open>
  The \<open>event\<close> object of \<open>sendSessionEvent\<close>, with \<open>details\<close> attached on completion
  when the summary event is configured.
\<close>

definition session_event ::
  "SessionEventType \<Rightarrow> SessionEventData option \<Rightarrow> int \<Rightarrow> int \<Rightarrow> BlockTracker
     \<Rightarrow> BlockSessionEvent" where
  "session_event eventType data timeSpent now this =
     (let event = \<lparr> se_eventType = eventType,
                    se_blockId = Some (cfg_blockId (config this)),
                    se_slideId = Some (cfg_slideId (config this)),
                    se_courseId = Some (cfg_courseId (config this)),
                    se_sessionId = sessionId (state this),
                    se_timestamp = now,
                    se_summary = session_summary eventType data timeSpent (state this),
                    se_details = None \<rparr>
      in if eventType = SessionCompleted \<and> cfg_sendSummaryEvent (config this)
         then event\<lparr> se_details :=
                Some \<lparr> dt_interactions = Some (interactions (state this)),
                       dt_questions = Some (questions (state this)),
                       dt_slides = Some (slides (state this)) \<rparr> \<rparr>
         else event)"

definition sendSessionEvent ::
  "SessionEventType \<Rightarrow> SessionEventData option \<Rightarrow> BlockTracker \<Rightarrow> env proc" where
  "sendSessionEvent eventType data this e =
     (let (timeSpent, e1) =
            (case Option.bind data sd_timeSpent of
               Some v \<Rightarrow> (v, e)
             | None \<Rightarrow> (let (now, e') = Date_now e in (now - startTime (state this), e')));
          (now, e2) = Date_now e1
      in sendEvent (BLOCK_SESSION (session_event eventType data timeSpent now this)) this e2)"

text \<open>The \<open>legacyEvent\<close> object of \<open>sendLegacyCompletion\<close>.\<close>

definition legacy_event ::
  "number option \<Rightarrow> number option \<Rightarrow> int option \<Rightarrow> json option
     \<Rightarrow> LegacyBlockCompletionEvent" where
  "legacy_event score maxScore timeSpent data =
     \<lparr> lc_completed = True,
       lc_score = score,
       lc_maxScore = maxScore,
       lc_timeSpent = timeSpent,
       lc_timestamp = None,
       lc_data = data \<rparr>"

definition sendLegacyCompletion ::
  "number option \<Rightarrow> number option \<Rightarrow> int option \<Rightarrow> json option \<Rightarrow> BlockTracker \<Rightarrow> env proc" where
  "sendLegacyCompletion score maxScore timeSpent data this =
     sendEvent (BLOCK_COMPLETION (legacy_event score maxScore timeSpent data)) this"

text \<open>
  \<open>startProgressUpdates\<close> installs the interval; \<open>progress_tick\<close> is one firing of its
  callback, possible only while the interval is installed.
\<close>

definition startProgressUpdates :: "(BlockTracker \<times> env) proc" where
  "startProgressUpdates = (\<lambda>(this, e).
     let (i, e1) = setInterval e in (None, (this\<lparr> progressTimer := Some i \<rparr>, e1)))"

definition progress_tick :: "(BlockTracker \<times> env) proc" where
  "progress_tick = (\<lambda>(this, e).
     case progressTimer this of
       None \<Rightarrow> (None, (this, e))
     | Some i \<Rightarrow>
         if i \<in> set (intervals e) \<and> \<not> isCompleted this
         then on_env persistSession (this, e)
         else (None, (this, e)))"

definition setupUnloadHandler :: "(BlockTracker \<times> env) proc" where
  "setupUnloadHandler = (\<lambda>(this, e).
     (None, (this, e\<lparr> windowListeners := windowListeners e @ [''beforeunload'', ''pagehide''] \<rparr>)))"

subsection \<open>Constructor and public methods\<close>

text \<open>
  A fragment seen through the \<open>SessionState\<close> interface: its \<open>blockId\<close>, every other
  property absent. It only fills the tracker component of a constructor result that
  is an exception, where no tracker reaches the caller.
\<close>

definition fragment_view :: "string option \<Rightarrow> SessionState" where
  "fragment_view b =
     \<lparr> sessionId = [], blockId = b, startTime = 0,
       interactions = [], questions = [], slides = [],
       currentQuestionId = None, currentQuestionStartTime = None,
       totalInteractions = 0, totalQuestions = 0, correctQuestions = 0 \<rparr>"

text \<open>
  The constructor. On a session state it runs as written. On a fragment,
  \<open>sendSessionEvent('started')\<close> reads the clock for \<open>timeSpent\<close> and then throws a
  \<open>TypeError\<close> at \<open>this.state.questions.filter\<close>, outside any \<open>try\<close>: the constructor
  ends there, with no event sent, no timer and no unload handler.
\<close>

definition new_BlockTracker :: "BlockTrackerConfig \<Rightarrow> env \<Rightarrow> exn option \<times> (BlockTracker \<times> env)" where
  "new_BlockTracker c e =
     (let cfg = default_config c;
          (v, e1) = restoreOrCreateSession cfg e
      in case v of
           FullState st \<Rightarrow>
             proc_seq (on_env (sendSessionEvent SessionStarted None))
               (proc_seq
                  (\<lambda>(this, e). if cfg_progressUpdateInterval (config this) > 0
                                then startProgressUpdates (this, e)
                                else (None, (this, e)))
                  setupUnloadHandler)
               (\<lparr> config = cfg, state = st, isCompleted = False,
                  eventSenders = [], progressTimer = None \<rparr>, e1)
         | FragmentState b \<Rightarrow>
             (Some TypeError,
              (\<lparr> config = cfg, state = fragment_view b, isCompleted = False,
                 eventSenders = [], progressTimer = None \<rparr>,
               snd (Date_now e1))))"

text \<open>
  The \<open>event\<close> object literal of each recording method, as a function of what the
  method has at hand when it builds it.
\<close>

definition interaction_event ::
  "InteractionType \<Rightarrow> string option \<Rightarrow> json option \<Rightarrow> string option \<Rightarrow> number option
     \<Rightarrow> int \<Rightarrow> BlockTracker \<Rightarrow> InteractionEvent" where
  "interaction_event interactionType elementId data elementType duration now this =
     \<lparr> ie_interactionType = interactionType,
       ie_blockId = Some (cfg_blockId (config this)),
       ie_sessionId = sessionId (state this),
       ie_elementId = elementId,
       ie_elementType = elementType,
       ie_timestamp = now,
       ie_duration = duration,
       ie_data = data \<rparr>"

definition started_event ::
  "string \<Rightarrow> QuestionType \<Rightarrow> string option \<Rightarrow> int \<Rightarrow> BlockTracker \<Rightarrow> QuestionEvent" where
  "started_event questionId questionType questionText now this =
     \<lparr> qe_eventType = QStarted,
       qe_blockId = Some (cfg_blockId (config this)),
       qe_sessionId = sessionId (state this),
       qe_questionId = questionId,
       qe_questionType = questionType,
       qe_questionText = questionText,
       qe_timestamp = now,
       qe_timeToAnswer = None,
       qe_answer = None,
       qe_correctAnswer = None,
       qe_isCorrect = None,
       qe_score = None,
       qe_maxScore = None,
       qe_attemptNumber = None,
       qe_hintsUsed = None,
       qe_confidenceLevel = None \<rparr>"

text \<open>The optional \<open>options\<close> argument of \<open>answerQuestion\<close>.\<close>

record AnswerOptions =
  ao_questionType :: "QuestionType option"
  ao_questionText :: "string option"
  ao_attemptNumber :: "number option"
  ao_hintsUsed :: "number option"

definition answered_event ::
  "string \<Rightarrow> json \<Rightarrow> json \<Rightarrow> bool \<Rightarrow> number \<Rightarrow> number \<Rightarrow> AnswerOptions option
     \<Rightarrow> int option \<Rightarrow> int \<Rightarrow> BlockTracker \<Rightarrow> QuestionEvent" where
  "answered_event questionId answer correctAnswer isCorrect score maxScore options
       timeToAnswer now this =
     \<lparr> qe_eventType = QAnswered,
       qe_blockId = Some (cfg_blockId (config this)),
       qe_sessionId = sessionId (state this),
       qe_questionId = questionId,
       qe_questionType =
         (case Option.bind options ao_questionType of
            None \<Rightarrow> MultipleChoice | Some qt \<Rightarrow> qt),
       qe_questionText = Option.bind options ao_questionText,
       qe_timestamp = now,
       qe_timeToAnswer = timeToAnswer,
       qe_answer = Some answer,
       qe_correctAnswer = Some correctAnswer,
       qe_isCorrect = Some isCorrect,
       qe_score = Some score,
       qe_maxScore = Some maxScore,
       qe_attemptNumber = Option.bind options ao_attemptNumber,
       qe_hintsUsed = Option.bind options ao_hintsUsed,
       qe_confidenceLevel = None \<rparr>"

definition skipped_event ::
  "string \<Rightarrow> QuestionType option \<Rightarrow> int \<Rightarrow> BlockTracker \<Rightarrow> QuestionEvent" where
  "skipped_event questionId questionType now this =
     \<lparr> qe_eventType = QSkipped,
       qe_blockId = Some (cfg_blockId (config this)),
       qe_sessionId = sessionId (state this),
       qe_questionId = questionId,
       qe_questionType = (case questionType of None \<Rightarrow> MultipleChoice | Some qt \<Rightarrow> qt),
       qe_questionText = None,
       qe_timestamp = now,
       qe_timeToAnswer = None,
       qe_answer = None,
       qe_correctAnswer = None,
       qe_isCorrect = None,
       qe_score = None,
       qe_maxScore = None,
       qe_attemptNumber = None,
       qe_hintsUsed = None,
       qe_confidenceLevel = None \<rparr>"

text \<open>
  The tail shared by the four recording methods:
  \<open>if (this.config.sendDetailedEvents) this.sendEvent(event); this.persistSession()\<close>.
\<close>

definition send_and_persist :: "BlockAnalyticsEvent \<Rightarrow> (BlockTracker \<times> env) proc" where
  "send_and_persist event =
     proc_seq
       (on_env (\<lambda>this. proc_when (cfg_sendDetailedEvents (config this)) (sendEvent event this)))
       (on_env persistSession)"

definition trackInteraction ::
  "InteractionType \<Rightarrow> string option \<Rightarrow> json option \<Rightarrow> string option \<Rightarrow> number option
     \<Rightarrow> (BlockTracker \<times> env) proc" where
  "trackInteraction interactionType elementId data elementType duration = (\<lambda>(this, e).
     if \<not> cfg_trackInteractions (config this) \<or> isCompleted this then (None, (this, e))
     else
       let (now, e1) = Date_now e;
           event = interaction_event interactionType elementId data elementType duration now this;
           this1 = this\<lparr> state := (state this)
                     \<lparr> interactions := interactions (state this) @ [event],
                       totalInteractions := totalInteractions (state this) + 1 \<rparr> \<rparr>
       in send_and_persist (BLOCK_INTERACTION event) (this1, e1))"

definition startQuestion ::
  "string \<Rightarrow> QuestionType \<Rightarrow> string option \<Rightarrow> (BlockTracker \<times> env) proc" where
  "startQuestion questionId questionType questionText = (\<lambda>(this, e).
     if \<not> cfg_trackQuestions (config this) \<or> isCompleted this then (None, (this, e))
     else
       let (t0, e1) = Date_now e;
           this1 = this\<lparr> state := (state this)
                     \<lparr> currentQuestionId := Some questionId,
                       currentQuestionStartTime := Some t0 \<rparr> \<rparr>;
           (now, e2) = Date_now e1;
           event = started_event questionId questionType questionText now this1;
           this2 = this1\<lparr> state := (state this1)
                     \<lparr> questions := questions (state this1) @ [event] \<rparr> \<rparr>
       in send_and_persist (BLOCK_QUESTION event) (this2, e2))"

text \<open>
  The initialiser of \<open>timeToAnswer\<close> in \<open>answerQuestion\<close>: the elapsed time is taken
  when the open question has the given id and its start time is truthy (present and not
  0); only then is the clock read for it.
\<close>

definition time_to_answer :: "string \<Rightarrow> BlockTracker \<Rightarrow> env \<Rightarrow> int option \<times> env" where
  "time_to_answer questionId this e =
     (case currentQuestionStartTime (state this) of
        Some t0 \<Rightarrow>
          if currentQuestionId (state this) = Some questionId \<and> t0 \<noteq> 0
          then (let (now, e') = Date_now e in (Some (now - t0), e'))
          else (None, e)
      | None \<Rightarrow> (None, e))"

definition answerQuestion ::
  "string \<Rightarrow> json \<Rightarrow> json \<Rightarrow> bool \<Rightarrow> number \<Rightarrow> number \<Rightarrow> AnswerOptions option
     \<Rightarrow> (BlockTracker \<times> env) proc" where
  "answerQuestion questionId answer correctAnswer isCorrect score maxScore options = (\<lambda>(this, e).
     if \<not> cfg_trackQuestions (config this) \<or> isCompleted this then (None, (this, e))
     else
       let (timeToAnswer, e1) = time_to_answer questionId this e;
           (now, e2) = Date_now e1;
           event = answered_event questionId answer correctAnswer isCorrect score maxScore
                     options timeToAnswer now this;
           this1 = this\<lparr> state := (state this)
                     \<lparr> questions := questions (state this) @ [event],
                       totalQuestions := totalQuestions (state this) + 1 \<rparr> \<rparr>;
           this2 = (if isCorrect
                    then this1\<lparr> state := (state this1)
                           \<lparr> correctQuestions := correctQuestions (state this1) + 1 \<rparr> \<rparr>
                    else this1);
           this3 = this2\<lparr> state := (state this2)
                     \<lparr> currentQuestionId := None, currentQuestionStartTime := None \<rparr> \<rparr>
       in send_and_persist (BLOCK_QUESTION event) (this3, e2))"

definition skipQuestion :: "string \<Rightarrow> QuestionType option \<Rightarrow> (BlockTracker \<times> env) proc" where
  "skipQuestion questionId questionType = (\<lambda>(this, e).
     if \<not> cfg_trackQuestions (config this) \<or> isCompleted this then (None, (this, e))
     else
       let (now, e1) = Date_now e;
           event = skipped_event questionId questionType now this;
           this1 = this\<lparr> state := (state this)
                     \<lparr> questions := questions (state this) @ [event] \<rparr> \<rparr>
       in send_and_persist (BLOCK_QUESTION event) (this1, e1))"

text \<open>\<open>if (this.progressTimer) clearInterval(this.progressTimer)\<close>: an id is truthy unless 0.\<close>

definition clear_progress_timer :: "BlockTracker \<Rightarrow> env proc" where
  "clear_progress_timer this =
     (case progressTimer this of
        None \<Rightarrow> proc_skip
      | Some i \<Rightarrow> proc_when (i \<noteq> 0) (clearInterval i))"

definition complete ::
  "number option \<Rightarrow> number option \<Rightarrow> json option \<Rightarrow> (BlockTracker \<times> env) proc" where
  "complete score maxScore additionalData = (\<lambda>(this, e).
     if isCompleted this then (None, (this, e))
     else
       let this1 = this\<lparr> isCompleted := True \<rparr>;
           (now, e1) = Date_now e;
           timeSpent = now - startTime (state this1)
       in proc_seq
            (on_env (sendSessionEvent SessionCompleted
                       (Some \<lparr> sd_score = score, sd_maxScore = maxScore,
                               sd_timeSpent = Some timeSpent,
                               sd_additionalData = additionalData \<rparr>)))
            (proc_seq
               (on_env (\<lambda>this. proc_when (cfg_sendLegacyEvent (config this))
                                  (sendLegacyCompletion score maxScore (Some timeSpent)
                                     additionalData this)))
               (proc_seq
                  (on_env clear_progress_timer)
                  (on_env (\<lambda>this. proc_when (cfg_persistSession (config this))
                                     (clearPersistedSession this)))))
            (this1, e1))"

definition abandon :: "(BlockTracker \<times> env) proc" where
  "abandon = (\<lambda>(this, e).
     if isCompleted this then (None, (this, e))
     else
       let this1 = this\<lparr> isCompleted := True \<rparr>;
           (now, e1) = Date_now e;
           timeSpent = now - startTime (state this1)
       in proc_seq
            (on_env (sendSessionEvent SessionAbandoned
                       (Some \<lparr> sd_score = None, sd_maxScore = None,
                               sd_timeSpent = Some timeSpent,
                               sd_additionalData = None \<rparr>)))
            (on_env clear_progress_timer)
            (this1, e1))"

definition addEventListener :: "nat \<Rightarrow> (BlockTracker \<times> env) proc" where
  "addEventListener callback = (\<lambda>(this, e).
     (None, (this\<lparr> eventSenders := eventSenders this @ [callback] \<rparr>, e)))"

definition removeEventListener :: "nat \<Rightarrow> (BlockTracker \<times> env) proc" where
  "removeEventListener callback = (\<lambda>(this, e).
     (None, (this\<lparr> eventSenders := filter (\<lambda>cb. cb \<noteq> callback) (eventSenders this) \<rparr>, e)))"

text \<open>The handler \<open>setupUnloadHandler\<close> installs for \<open>beforeunload\<close> and \<open>pagehide\<close>.\<close>

definition unload_handler :: "(BlockTracker \<times> env) proc" where
  "unload_handler = (\<lambda>(this, e).
     if \<not> isCompleted this then abandon (this, e) else (None, (this, e)))"

subsection \<open>Sequences of calls on one tracker\<close>

datatype call =
    TrackInteraction InteractionType "string option" "json option" "string option" "number option"
  | StartQuestion string QuestionType "string option"
  | AnswerQuestion string json json bool number number "AnswerOptions option"
  | SkipQuestion string "QuestionType option"
  | Complete "number option" "number option" "json option"
  | Abandon
  | AddEventListener nat
  | RemoveEventListener nat
  | ProgressTick
  | PageUnload

fun perform :: "call \<Rightarrow> (BlockTracker \<times> env) proc" where
  "perform (TrackInteraction k i d t u) = trackInteraction k i d t u"
| "perform (StartQuestion q k x) = startQuestion q k x"
| "perform (AnswerQuestion q a c b s m opts) = answerQuestion q a c b s m opts"
| "perform (SkipQuestion q k) = skipQuestion q k"
| "perform (Complete s m d) = complete s m d"
| "perform Abandon = abandon"
| "perform (AddEventListener cb) = addEventListener cb"
| "perform (RemoveEventListener cb) = removeEventListener cb"
| "perform ProgressTick = progress_tick"
| "perform PageUnload = unload_handler"

text \<open>The six calls that record or end a session.\<close>

fun is_mutating :: "call \<Rightarrow> bool" where
  "is_mutating (AddEventListener cb) = False"
| "is_mutating (RemoveEventListener cb) = False"
| "is_mutating ProgressTick = False"
| "is_mutating PageUnload = False"
| "is_mutating c = True"

definition run :: "call list \<Rightarrow> (BlockTracker \<times> env) proc" where
  "run cs = forEach perform cs"

section \<open>Closed forms of the private methods\<close>

text \<open>
  What each private method leaves behind, written as a function of the environment
  before it. The lemmas of the next section show that the methods, with their
  \<open>try\<close>/\<open>catch\<close> blocks, compute exactly these and never throw.
\<close>

definition post_effects :: "env \<Rightarrow> BlockAnalyticsEvent \<Rightarrow> effect list" where
  "post_effects e event =
     (if postMessage_throws e Self event
      then [Warn ''[BlockTracker] Failed to send postMessage:'']
      else if postMessage_throws e Parent event
           then [PostMessage Self event, Warn ''[BlockTracker] Failed to send postMessage:'']
           else [PostMessage Self event, PostMessage Parent event])"

fun sender_effects :: "env \<Rightarrow> BlockAnalyticsEvent \<Rightarrow> nat list \<Rightarrow> effect list" where
  "sender_effects e event [] = []"
| "sender_effects e event (s # ss) =
     (if sender_throws e s event
      then [Invoke s event, Warn ''[BlockTracker] Event sender error:'']
      else [Invoke s event]) @ sender_effects e event ss"

definition emit :: "BlockAnalyticsEvent \<Rightarrow> BlockTracker \<Rightarrow> env \<Rightarrow> env" where
  "emit event this e =
     e\<lparr> effects := effects e @ post_effects e event
                      @ sender_effects e event (eventSenders this) \<rparr>"

definition persisted :: "BlockTracker \<Rightarrow> env \<Rightarrow> env" where
  "persisted this e =
     (if \<not> cfg_persistSession (config this) then e
      else if localStorage_throws e SetItem
           then e\<lparr> effects := effects e @ [Warn ''[BlockTracker] Failed to persist session:''] \<rparr>
           else e\<lparr> localStorage := (localStorage e)
                     (cfg_sessionStorageKey (config this) \<mapsto> Snapshot (state this)) \<rparr>)"

definition unpersisted :: "BlockTracker \<Rightarrow> env \<Rightarrow> env" where
  "unpersisted this e =
     (if \<not> cfg_persistSession (config this) then e
      else if localStorage_throws e RemoveItem
           then e\<lparr> effects := effects e @ [Warn ''[BlockTracker] Failed to clear session:''] \<rparr>
           else e\<lparr> localStorage :=
                     (localStorage e)(cfg_sessionStorageKey (config this) := None) \<rparr>)"

definition timer_cleared :: "BlockTracker \<Rightarrow> env \<Rightarrow> env" where
  "timer_cleared this e =
     (case progressTimer this of
        None \<Rightarrow> e
      | Some i \<Rightarrow> if i \<noteq> 0 then e\<lparr> intervals := removeAll i (intervals e) \<rparr> else e)"

definition tick :: "env \<Rightarrow> env" where
  "tick e = e\<lparr> now_reads := Suc (now_reads e) \<rparr>"

section \<open>Observations on a run\<close>

text \<open>The effects added between two environments, and the listener calls and posts among them.\<close>

definition new_effects :: "env \<Rightarrow> env \<Rightarrow> effect list" where
  "new_effects e e' = drop (length (effects e)) (effects e')"

fun invocations :: "effect list \<Rightarrow> (nat \<times> BlockAnalyticsEvent) list" where
  "invocations [] = []"
| "invocations (Invoke s ev # xs) = (s, ev) # invocations xs"
| "invocations (x # xs) = invocations xs"

fun posts :: "effect list \<Rightarrow> (target \<times> BlockAnalyticsEvent) list" where
  "posts [] = []"
| "posts (PostMessage tgt ev # xs) = (tgt, ev) # posts xs"
| "posts (x # xs) = posts xs"

text \<open>The events handed to a sink (a post that went through, or a listener call).\<close>

fun events_of :: "effect list \<Rightarrow> BlockAnalyticsEvent list" where
  "events_of [] = []"
| "events_of (PostMessage tgt ev # xs) = ev # events_of xs"
| "events_of (Invoke s ev # xs) = ev # events_of xs"
| "events_of (Warn msg # xs) = events_of xs"

definition emitted :: "env \<Rightarrow> env \<Rightarrow> BlockAnalyticsEvent list" where
  "emitted e e' = events_of (new_effects e e')"

fun session_events :: "BlockAnalyticsEvent list \<Rightarrow> BlockSessionEvent list" where
  "session_events [] = []"
| "session_events (BLOCK_SESSION se # xs) = se # session_events xs"
| "session_events (x # xs) = session_events xs"

text \<open>The readings of \<open>Date.now()\<close> taken between two environments.\<close>

definition readings :: "env \<Rightarrow> env \<Rightarrow> int list" where
  "readings e e' = map (date_now e) [now_reads e ..< now_reads e']"

fun is_terminal :: "call \<Rightarrow> bool" where
  "is_terminal (Complete s m d) = True"
| "is_terminal Abandon = True"
| "is_terminal c = False"

text \<open>
  \<open>restoreOrCreateSession\<close> takes the restore path: persistence is on and the \<open>try\<close>
  block returns.
\<close>

definition restores :: "RequiredConfig \<Rightarrow> env \<Rightarrow> bool" where
  "restores cfg e =
     (cfg_persistSession cfg \<and>
      (case try_restore cfg e of Return st \<Rightarrow> True | Fallthrough \<Rightarrow> False | Raise x \<Rightarrow> False))"

text \<open>The counter invariant of the data model.\<close>

definition counters_ok :: "SessionState \<Rightarrow> bool" where
  "counters_ok st =
     (totalQuestions st = length (filter (\<lambda>q. qe_eventType q = QAnswered) (questions st))
      \<and> correctQuestions st =
          length (filter (\<lambda>q. qe_eventType q = QAnswered \<and> qe_isCorrect q = Some True)
                    (questions st)))"

section \<open>Events a call hands to its sinks\<close>

text \<open>
  The events each public call passes to \<open>sendEvent\<close>, and those the constructor passes,
  as functions of the tracker and the environment before the call. The lemmas show
  that nothing else reaches a sink.
\<close>

definition abandoned_events :: "BlockTracker \<Rightarrow> env \<Rightarrow> BlockAnalyticsEvent list" where
  "abandoned_events this e =
     (if isCompleted this then []
      else [BLOCK_SESSION (session_event SessionAbandoned
             (Some \<lparr> sd_score = None, sd_maxScore = None,
                     sd_timeSpent = Some (date_now e (now_reads e) - startTime (state this)),
                     sd_additionalData = None \<rparr>)
             (date_now e (now_reads e) - startTime (state this))
             (date_now e (Suc (now_reads e))) (this\<lparr> isCompleted := True \<rparr>))])"

fun sent_events :: "call \<Rightarrow> BlockTracker \<Rightarrow> env \<Rightarrow> BlockAnalyticsEvent list" where
  "sent_events (TrackInteraction k i d t u) this e =
     (if cfg_trackInteractions (config this) \<and> \<not> isCompleted this
         \<and> cfg_sendDetailedEvents (config this)
      then [BLOCK_INTERACTION (interaction_event k i d t u (date_now e (now_reads e)) this)]
      else [])"
| "sent_events (StartQuestion q k x) this e =
     (if cfg_trackQuestions (config this) \<and> \<not> isCompleted this
         \<and> cfg_sendDetailedEvents (config this)
      then [BLOCK_QUESTION (started_event q k x (date_now e (Suc (now_reads e))) this)]
      else [])"
| "sent_events (AnswerQuestion q a c b s m opts) this e =
     (if cfg_trackQuestions (config this) \<and> \<not> isCompleted this
         \<and> cfg_sendDetailedEvents (config this)
      then [BLOCK_QUESTION (answered_event q a c b s m opts (fst (time_to_answer q this e))
              (date_now e (now_reads (snd (time_to_answer q this e)))) this)]
      else [])"
| "sent_events (SkipQuestion q k) this e =
     (if cfg_trackQuestions (config this) \<and> \<not> isCompleted this
         \<and> cfg_sendDetailedEvents (config this)
      then [BLOCK_QUESTION (skipped_event q k (date_now e (now_reads e)) this)]
      else [])"
| "sent_events (Complete s m d) this e =
     (if isCompleted this then []
      else BLOCK_SESSION (session_event SessionCompleted
             (Some \<lparr> sd_score = s, sd_maxScore = m,
                     sd_timeSpent = Some (date_now e (now_reads e) - startTime (state this)),
                     sd_additionalData = d \<rparr>)
             (date_now e (now_reads e) - startTime (state this))
             (date_now e (Suc (now_reads e))) (this\<lparr> isCompleted := True \<rparr>))
           # (if cfg_sendLegacyEvent (config this)
              then [BLOCK_COMPLETION (legacy_event s m
                      (Some (date_now e (now_reads e) - startTime (state this))) d)]
              else []))"
| "sent_events Abandon this e = abandoned_events this e"
| "sent_events PageUnload this e = abandoned_events this e"
| "sent_events c this e = []"

definition started_events :: "BlockTrackerConfig \<Rightarrow> env \<Rightarrow> BlockAnalyticsEvent list" where
  "started_events c e =
     (let cfg = default_config c;
          e1 = snd (restoreOrCreateSession cfg e)
      in case fst (restoreOrCreateSession cfg e) of
           FullState st \<Rightarrow>
             [BLOCK_SESSION (session_event SessionStarted None
                (date_now e (now_reads e1) - startTime st)
                (date_now e (Suc (now_reads e1)))
                \<lparr> config = cfg, state = st, isCompleted = False,
                  eventSenders = [], progressTimer = None \<rparr>)]
         | FragmentState b \<Rightarrow> [])"

text \<open>
  The effects of \<open>e1\<close> are those of \<open>e\<close> followed by more, and every event handed
  to a sink in between is one of \<open>evs\<close>.
\<close>

definition extends :: "env \<Rightarrow> env \<Rightarrow> BlockAnalyticsEvent list \<Rightarrow> bool" where
  "extends e e1 evs = (\<exists>xs. effects e1 = effects e @ xs \<and> set (events_of xs) \<subseteq> set evs)"

text \<open>
  An event carries the session id and a timestamp read from the clock; the legacy
  completion event, a reduced shape, carries no session id.
\<close>

fun is_legacy :: "BlockAnalyticsEvent \<Rightarrow> bool" where
  "is_legacy (BLOCK_COMPLETION l) = True"
| "is_legacy ev = False"

definition well_stamped :: "string \<Rightarrow> int list \<Rightarrow> BlockAnalyticsEvent \<Rightarrow> bool" where
  "well_stamped sid ts ev =
     (if is_legacy ev then event_sessionId ev = None
      else event_sessionId ev = Some sid
           \<and> (case event_timestamp ev of None \<Rightarrow> False | Some t \<Rightarrow> t \<in> set ts))"

section \<open>Summary metrics, as the specification words them\<close>

text \<open>
  The answered question events of a session; the accuracy rate (correct answers over
  answers, undefined without answers); the mean of \<open>timeToAnswer\<close> over the answered
  events that have one (undefined when none has); and the mean over all answered
  events, an absent \<open>timeToAnswer\<close> counting as 0.
\<close>

definition answered :: "QuestionEvent list \<Rightarrow> QuestionEvent list" where
  "answered qs = filter (\<lambda>q. qe_eventType q = QAnswered) qs"

definition accuracy_rate :: "QuestionEvent list \<Rightarrow> number option" where
  "accuracy_rate qs =
     (if answered qs = [] then None
      else Some (of_nat (length (filter (\<lambda>q. qe_isCorrect q = Some True) (answered qs)))
                 / of_nat (length (answered qs))))"

definition defined_times :: "QuestionEvent list \<Rightarrow> int list" where
  "defined_times qs =
     concat (map (\<lambda>q. case qe_timeToAnswer q of None \<Rightarrow> [] | Some t \<Rightarrow> [t]) (answered qs))"

definition mean_defined_time :: "QuestionEvent list \<Rightarrow> number option" where
  "mean_defined_time qs =
     (if defined_times qs = [] then None
      else Some (of_int (sum_list (defined_times qs)) / of_nat (length (defined_times qs))))"

definition mean_answer_time :: "QuestionEvent list \<Rightarrow> number option" where
  "mean_answer_time qs =
     (if answered qs = [] then None
      else Some (of_int (sum_list (map (\<lambda>q. case qe_timeToAnswer q of None \<Rightarrow> 0 | Some t \<Rightarrow> t)
                                       (answered qs)))
                 / of_nat (length (answered qs))))"

section \<open>Persistence\<close>

text \<open>
  The value a restore would take: storage can be read, the string under the configured
  key parses to a value other than \<open>null\<close>, and the \<open>blockId\<close> of that value is the
  configured one. The value is a session state or a fragment. \<open>held_state\<close> reads a
  restored value through the \<open>SessionState\<close> interface. A tracker is synced with the
  page when the record under its key is its current state. \<open>is_complete\<close> singles out
  the call \<open>complete\<close>.
\<close>

definition stored_session :: "RequiredConfig \<Rightarrow> env \<Rightarrow> session_value option" where
  "stored_session cfg e =
     (if localStorage_throws e GetItem then None
      else case localStorage e (cfg_sessionStorageKey cfg) of
             Some (Snapshot st) \<Rightarrow>
               if blockId st = Some (cfg_blockId cfg) then Some (FullState st) else None
           | Some (Fragment b) \<Rightarrow>
               if b = Some (cfg_blockId cfg) then Some (FragmentState b) else None
           | _ \<Rightarrow> None)"

definition held_state :: "session_value \<Rightarrow> SessionState" where
  "held_state v = (case v of FullState st \<Rightarrow> st | FragmentState b \<Rightarrow> fragment_view b)"


definition synced :: "BlockTracker \<Rightarrow> env \<Rightarrow> bool" where
  "synced this e =
     (localStorage e (cfg_sessionStorageKey (config this)) = Some (Snapshot (state this)))"

fun is_complete :: "call \<Rightarrow> bool" where
  "is_complete (Complete s m d) = True"
| "is_complete c = False"

section \<open>Example inputs\<close>

text \<open>
  A page with empty storage where nothing throws except listener 1, a clock that
  advances 10 ms per reading from 1000, and a tracker configuration for block \<open>quiz\<close>
  with persistence on and no progress timer.
\<close>

definition example_env :: env where
  "example_env =
     \<lparr> localStorage = Map.empty,
       localStorage_throws = (\<lambda>op. False),
       postMessage_throws = (\<lambda>tgt ev. False),
       sender_throws = (\<lambda>s ev. s = 1),
       effects = [],
       date_now = (\<lambda>n. 1000 + 10 * int n),
       now_reads = 0,
       math_random = (\<lambda>n. ''k3x9q2a''),
       random_reads = 0,
       intervals = [],
       interval_seq = 0,
       windowListeners = [] \<rparr>"

definition example_config :: BlockTrackerConfig where
  "example_config =
     \<lparr> opt_blockId = Some ''quiz'',
       opt_slideId = None,
       opt_courseId = None,
       opt_trackInteractions = None,
       opt_trackQuestions = None,
       opt_sendDetailedEvents = None,
       opt_sendSummaryEvent = None,
       opt_sendLegacyEvent = None,
       opt_interactionDebounce = None,
       opt_progressUpdateInterval = Some 0,
       opt_persistSession = Some True,
       opt_sessionStorageKey = None \<rparr>"

text \<open>The tracker constructed on that page, and the page it leaves.\<close>

definition example_this :: BlockTracker where
  "example_this = fst (snd (new_BlockTracker example_config example_env))"

definition example_page :: env where
  "example_page = snd (snd (new_BlockTracker example_config example_env))"

text \<open>
  A quiz on the example tracker: question \<open>q1\<close> is started and answered correctly, then
  \<open>q2\<close> is answered wrongly without having been started.
\<close>

definition example_quiz_calls :: "call list" where
  "example_quiz_calls =
     [StartQuestion ''q1'' MultipleChoice None,
      AnswerQuestion ''q1'' (JStr ''A'') (JStr ''A'') True 1 1 None,
      AnswerQuestion ''q2'' (JStr ''B'') (JStr ''A'') False 0 1 None]"

definition example_quiz_this :: BlockTracker where
  "example_quiz_this = fst (snd (run example_quiz_calls (example_this, example_page)))"

definition example_quiz_page :: env where
  "example_quiz_page = snd (snd (run example_quiz_calls (example_this, example_page)))"


section \<open>Theorems\<close>

subsection \<open>The private methods never throw\<close>


lemma proc_seq_None: "p s = (None, s') \<Longrightarrow> proc_seq p q s = q s'"
  by (simp add: proc_seq_def)

lemma try_post:
  "try_catch (proc_seq (postMessage Self event) (postMessage Parent event))
      (\<lambda>error. console_warn ''[BlockTracker] Failed to send postMessage:'') e
   = (None, e\<lparr> effects := effects e @ post_effects e event \<rparr>)"
  by (simp add: try_catch_def proc_seq_def postMessage_def console_warn_def record_effect_def
      post_effects_def)

lemma try_sender:
  "try_catch (call_sender s event) (\<lambda>error. console_warn ''[BlockTracker] Event sender error:'') e
   = (None, e\<lparr> effects := effects e @
        (if sender_throws e s event
         then [Invoke s event, Warn ''[BlockTracker] Event sender error:'']
         else [Invoke s event]) \<rparr>)"
  by (simp add: try_catch_def call_sender_def console_warn_def record_effect_def)

lemma sender_effects_frame:
  "sender_effects (e\<lparr> effects := x \<rparr>) event ss = sender_effects e event ss"
  by (induction ss) simp_all

lemma forEach_senders:
  "forEach (\<lambda>sender. try_catch (call_sender sender event)
                       (\<lambda>error. console_warn ''[BlockTracker] Event sender error:'')) ss e
   = (None, e\<lparr> effects := effects e @ sender_effects e event ss \<rparr>)"
proof (induction ss arbitrary: e)
  case Nil
  show ?case by simp
next
  case (Cons s ss)
  let ?f = "\<lambda>sender. try_catch (call_sender sender event)
                       (\<lambda>error. console_warn ''[BlockTracker] Event sender error:'')"
  let ?e1 = "e\<lparr> effects := effects e @
        (if sender_throws e s event
         then [Invoke s event, Warn ''[BlockTracker] Event sender error:'']
         else [Invoke s event]) \<rparr>"
  have "forEach ?f (s # ss) e = forEach ?f ss ?e1"
    by (simp only: forEach.simps proc_seq_None [OF try_sender])
  also have "\<dots> = (None, ?e1\<lparr> effects := effects ?e1 @ sender_effects ?e1 event ss \<rparr>)"
    by (rule Cons.IH)
  also have "\<dots> = (None, e\<lparr> effects := effects e @ sender_effects e event (s # ss) \<rparr>)"
    by (simp add: sender_effects_frame)
  finally show ?case .
qed

lemma sendEvent_emit: "sendEvent event this e = (None, emit event this e)"
  by (simp add: sendEvent_def proc_seq_def try_post forEach_senders emit_def sender_effects_frame)

lemma persistSession_persisted: "persistSession this e = (None, persisted this e)"
  by (simp add: persistSession_def persisted_def proc_skip_def try_catch_def localStorage_setItem_def
      console_warn_def record_effect_def)

lemma clearPersistedSession_unpersisted: "clearPersistedSession this e = (None, unpersisted this e)"
  by (simp add: clearPersistedSession_def unpersisted_def proc_skip_def try_catch_def
      localStorage_removeItem_def console_warn_def record_effect_def)

lemma clear_progress_timer_cleared: "clear_progress_timer this e = (None, timer_cleared this e)"
  by (simp add: clear_progress_timer_def timer_cleared_def proc_skip_def proc_when_def
      clearInterval_def split: option.split)

lemma Date_now_tick: "Date_now e = (date_now e (now_reads e), tick e)"
  by (simp add: Date_now_def tick_def)

lemma send_and_persist_eq:
  "send_and_persist event (this, e) =
     (None, (this, persisted this
                     (if cfg_sendDetailedEvents (config this) then emit event this e else e)))"
  by (simp add: send_and_persist_def proc_seq_def on_env_def proc_when_def proc_skip_def
      sendEvent_emit persistSession_persisted)

lemma sendSessionEvent_timed:
  "sendSessionEvent ty (Some \<lparr> sd_score = a, sd_maxScore = b, sd_timeSpent = Some ts,
                               sd_additionalData = d \<rparr>) this e =
     (None, emit (BLOCK_SESSION (session_event ty
                    (Some \<lparr> sd_score = a, sd_maxScore = b, sd_timeSpent = Some ts,
                            sd_additionalData = d \<rparr>) ts (date_now e (now_reads e)) this))
              this (tick e))"
  by (simp add: sendSessionEvent_def Date_now_tick sendEvent_emit)

lemma sendSessionEvent_untimed:
  "sendSessionEvent ty None this e =
     (None, emit (BLOCK_SESSION (session_event ty None
                    (date_now e (now_reads e) - startTime (state this))
                    (date_now e (Suc (now_reads e))) this))
              this (tick (tick e)))"
  by (simp add: sendSessionEvent_def Date_now_tick sendEvent_emit tick_def)

lemma sendLegacyCompletion_eq:
  "sendLegacyCompletion a b c d this e =
     (None, emit (BLOCK_COMPLETION (legacy_event a b c d)) this e)"
  by (simp add: sendLegacyCompletion_def sendEvent_emit)

subsection \<open>Closed forms of the public methods\<close>

lemma trackInteraction_noop:
  "\<not> cfg_trackInteractions (config this) \<or> isCompleted this \<Longrightarrow>
   trackInteraction k i d t u (this, e) = (None, (this, e))"
  by (auto simp add: trackInteraction_def)

lemma trackInteraction_active:
  assumes "cfg_trackInteractions (config this)" "\<not> isCompleted this"
  shows "trackInteraction k i d t u (this, e) =
    (let event = interaction_event k i d t u (date_now e (now_reads e)) this;
         this1 = this\<lparr> state := (state this)
                     \<lparr> interactions := interactions (state this) @ [event],
                       totalInteractions := totalInteractions (state this) + 1 \<rparr> \<rparr>
     in (None, (this1, persisted this1
           (if cfg_sendDetailedEvents (config this)
            then emit (BLOCK_INTERACTION event) this1 (tick e) else tick e))))"
  using assms
  by (simp add: trackInteraction_def Let_def Date_now_tick send_and_persist_eq)

lemma startQuestion_noop:
  "\<not> cfg_trackQuestions (config this) \<or> isCompleted this \<Longrightarrow>
   startQuestion q k x (this, e) = (None, (this, e))"
  by (auto simp add: startQuestion_def)

lemma startQuestion_active:
  assumes "cfg_trackQuestions (config this)" "\<not> isCompleted this"
  shows "startQuestion q k x (this, e) =
    (let this1 = this\<lparr> state := (state this)
                     \<lparr> currentQuestionId := Some q,
                       currentQuestionStartTime := Some (date_now e (now_reads e)) \<rparr> \<rparr>;
         event = started_event q k x (date_now e (Suc (now_reads e))) this1;
         this2 = this1\<lparr> state := (state this1)
                     \<lparr> questions := questions (state this1) @ [event] \<rparr> \<rparr>
     in (None, (this2, persisted this2
           (if cfg_sendDetailedEvents (config this)
            then emit (BLOCK_QUESTION event) this2 (tick (tick e)) else tick (tick e)))))"
  using assms
  by (simp add: startQuestion_def Let_def Date_now_tick send_and_persist_eq tick_def)

lemma skipQuestion_noop:
  "\<not> cfg_trackQuestions (config this) \<or> isCompleted this \<Longrightarrow>
   skipQuestion q k (this, e) = (None, (this, e))"
  by (auto simp add: skipQuestion_def)

lemma skipQuestion_active:
  assumes "cfg_trackQuestions (config this)" "\<not> isCompleted this"
  shows "skipQuestion q k (this, e) =
    (let event = skipped_event q k (date_now e (now_reads e)) this;
         this1 = this\<lparr> state := (state this)
                     \<lparr> questions := questions (state this) @ [event] \<rparr> \<rparr>
     in (None, (this1, persisted this1
           (if cfg_sendDetailedEvents (config this)
            then emit (BLOCK_QUESTION event) this1 (tick e) else tick e))))"
  using assms
  by (simp add: skipQuestion_def Let_def Date_now_tick send_and_persist_eq)


lemma answerQuestion_noop:
  "\<not> cfg_trackQuestions (config this) \<or> isCompleted this \<Longrightarrow>
   answerQuestion q a c b s m opts (this, e) = (None, (this, e))"
  by (auto simp add: answerQuestion_def)

lemma answerQuestion_active:
  assumes "cfg_trackQuestions (config this)" "\<not> isCompleted this"
  shows "answerQuestion q a c b s m opts (this, e) =
    (let tta = fst (time_to_answer q this e);
         e1 = snd (time_to_answer q this e);
         event = answered_event q a c b s m opts tta (date_now e1 (now_reads e1)) this;
         this3 = this\<lparr> state := (state this)
                     \<lparr> questions := questions (state this) @ [event],
                       totalQuestions := totalQuestions (state this) + 1,
                       correctQuestions :=
                         (if b then correctQuestions (state this) + 1
                          else correctQuestions (state this)),
                       currentQuestionId := None,
                       currentQuestionStartTime := None \<rparr> \<rparr>
     in (None, (this3, persisted this3
           (if cfg_sendDetailedEvents (config this)
            then emit (BLOCK_QUESTION event) this3 (tick e1) else tick e1))))"
  using assms
  by (simp add: answerQuestion_def Let_def split_def Date_now_tick send_and_persist_eq)

lemma complete_noop: "isCompleted this \<Longrightarrow> complete s m d (this, e) = (None, (this, e))"
  by (simp add: complete_def)

lemma complete_active:
  assumes "\<not> isCompleted this"
  shows "complete s m d (this, e) =
    (let this1 = this\<lparr> isCompleted := True \<rparr>;
         ts = date_now e (now_reads e) - startTime (state this);
         e2 = emit (BLOCK_SESSION (session_event SessionCompleted
                      (Some \<lparr> sd_score = s, sd_maxScore = m, sd_timeSpent = Some ts,
                              sd_additionalData = d \<rparr>)
                      ts (date_now e (Suc (now_reads e))) this1))
                this1 (tick (tick e));
         e3 = (if cfg_sendLegacyEvent (config this)
               then emit (BLOCK_COMPLETION (legacy_event s m (Some ts) d)) this1 e2 else e2);
         e4 = timer_cleared this1 e3;
         e5 = (if cfg_persistSession (config this) then unpersisted this1 e4 else e4)
     in (None, (this1, e5)))"
  using assms
  by (simp add: complete_def Let_def Date_now_tick proc_seq_def on_env_def proc_when_def
      proc_skip_def sendSessionEvent_timed sendLegacyCompletion_eq clear_progress_timer_cleared
      clearPersistedSession_unpersisted tick_def)

lemma abandon_noop: "isCompleted this \<Longrightarrow> abandon (this, e) = (None, (this, e))"
  by (simp add: abandon_def)

lemma abandon_active:
  assumes "\<not> isCompleted this"
  shows "abandon (this, e) =
    (let this1 = this\<lparr> isCompleted := True \<rparr>;
         ts = date_now e (now_reads e) - startTime (state this);
         e2 = emit (BLOCK_SESSION (session_event SessionAbandoned
                      (Some \<lparr> sd_score = None, sd_maxScore = None, sd_timeSpent = Some ts,
                              sd_additionalData = None \<rparr>)
                      ts (date_now e (Suc (now_reads e))) this1))
                this1 (tick (tick e))
     in (None, (this1, timer_cleared this1 e2)))"
  using assms
  by (simp add: abandon_def Let_def Date_now_tick proc_seq_def on_env_def
      sendSessionEvent_timed clear_progress_timer_cleared tick_def)

lemma progress_tick_eq:
  "progress_tick (this, e) =
     (None, (this, case progressTimer this of
                     None \<Rightarrow> e
                   | Some i \<Rightarrow> if i \<in> set (intervals e) \<and> \<not> isCompleted this
                               then persisted this e else e))"
  by (simp add: progress_tick_def on_env_def persistSession_persisted split: option.split)

lemma unload_handler_eq:
  "unload_handler (this, e) = abandon (this, e)"
  by (simp add: unload_handler_def abandon_noop)

lemma new_BlockTracker_full:
  assumes "fst (restoreOrCreateSession (default_config c) e) = FullState st"
  shows "new_BlockTracker c e =
    (let cfg = default_config c;
         e1 = snd (restoreOrCreateSession cfg e);
         this = \<lparr> config = cfg, state = st, isCompleted = False,
                  eventSenders = [], progressTimer = None \<rparr>;
         e2 = emit (BLOCK_SESSION (session_event SessionStarted None
                      (date_now e1 (now_reads e1) - startTime st)
                      (date_now e1 (Suc (now_reads e1))) this))
                this (tick (tick e1));
         this1 = (if cfg_progressUpdateInterval cfg > 0
                  then this\<lparr> progressTimer := Some (Suc (interval_seq e2)) \<rparr> else this);
         e3 = (if cfg_progressUpdateInterval cfg > 0 then snd (setInterval e2) else e2)
     in (None, (this1,
                e3\<lparr> windowListeners := windowListeners e3 @ [''beforeunload'', ''pagehide''] \<rparr>)))"
  using assms
  by (simp add: new_BlockTracker_def Let_def split_def proc_seq_def on_env_def
      sendSessionEvent_untimed startProgressUpdates_def setupUnloadHandler_def setInterval_def)

lemma new_BlockTracker_fragment:
  assumes "fst (restoreOrCreateSession (default_config c) e) = FragmentState b"
  shows "new_BlockTracker c e =
    (Some TypeError,
     (\<lparr> config = default_config c, state = fragment_view b, isCompleted = False,
        eventSenders = [], progressTimer = None \<rparr>,
      tick (snd (restoreOrCreateSession (default_config c) e))))"
  using assms
  by (simp add: new_BlockTracker_def Let_def split_def Date_now_tick)

subsection \<open>Observations\<close>


lemma invocations_append: "invocations (xs @ ys) = invocations xs @ invocations ys"
  by (induction xs rule: invocations.induct) simp_all

lemma posts_append: "posts (xs @ ys) = posts xs @ posts ys"
  by (induction xs rule: posts.induct) simp_all

lemma invocations_sender_effects:
  "invocations (sender_effects e ev ss) = map (\<lambda>s. (s, ev)) ss"
  by (induction ss) simp_all

lemma posts_sender_effects: "posts (sender_effects e ev ss) = []"
  by (induction ss) simp_all

lemma invocations_post_effects: "invocations (post_effects e ev) = []"
  by (simp add: post_effects_def)

lemma new_effects_emit:
  "new_effects e (emit ev this e) = post_effects e ev @ sender_effects e ev (eventSenders this)"
  by (simp add: new_effects_def emit_def)

lemma perform_returns: "fst (perform c (this, e)) = None"
proof (cases c)
  case (TrackInteraction k i d t u)
  then show ?thesis
    by (cases "cfg_trackInteractions (config this) \<and> \<not> isCompleted this")
       (auto simp add: trackInteraction_noop trackInteraction_active Let_def)
next
  case (StartQuestion q k x)
  then show ?thesis
    by (cases "cfg_trackQuestions (config this) \<and> \<not> isCompleted this")
       (auto simp add: startQuestion_noop startQuestion_active Let_def)
next
  case (AnswerQuestion q a ca b s m opts)
  then show ?thesis
    by (cases "cfg_trackQuestions (config this) \<and> \<not> isCompleted this")
       (auto simp add: answerQuestion_noop answerQuestion_active Let_def)
next
  case (SkipQuestion q k)
  then show ?thesis
    by (cases "cfg_trackQuestions (config this) \<and> \<not> isCompleted this")
       (auto simp add: skipQuestion_noop skipQuestion_active Let_def)
next
  case (Complete s m d)
  then show ?thesis
    by (cases "isCompleted this") (simp_all add: complete_noop complete_active Let_def)
next
  case Abandon
  then show ?thesis
    by (cases "isCompleted this") (simp_all add: abandon_noop abandon_active Let_def)
next
  case (AddEventListener cb)
  then show ?thesis by (simp add: addEventListener_def)
next
  case (RemoveEventListener cb)
  then show ?thesis by (simp add: removeEventListener_def)
next
  case ProgressTick
  then show ?thesis by (simp add: progress_tick_eq)
next
  case PageUnload
  then show ?thesis
    by (cases "isCompleted this") (simp_all add: unload_handler_eq abandon_noop abandon_active Let_def)
qed

subsection \<open>What the closed forms leave in each field\<close>

lemma tick_fields:
  "effects (tick e) = effects e"
  "now_reads (tick e) = Suc (now_reads e)"
  "date_now (tick e) = date_now e"
  "localStorage (tick e) = localStorage e"
  "localStorage_throws (tick e) = localStorage_throws e"
  "postMessage_throws (tick e) = postMessage_throws e"
  "sender_throws (tick e) = sender_throws e"
  "intervals (tick e) = intervals e"
  by (simp_all add: tick_def)

lemma emit_fields:
  "effects (emit ev this e) =
     effects e @ post_effects e ev @ sender_effects e ev (eventSenders this)"
  "now_reads (emit ev this e) = now_reads e"
  "date_now (emit ev this e) = date_now e"
  "localStorage (emit ev this e) = localStorage e"
  "localStorage_throws (emit ev this e) = localStorage_throws e"
  "postMessage_throws (emit ev this e) = postMessage_throws e"
  "sender_throws (emit ev this e) = sender_throws e"
  "intervals (emit ev this e) = intervals e"
  by (simp_all add: emit_def)

lemma persisted_fields:
  "effects (persisted this e) =
     effects e @ (if cfg_persistSession (config this) \<and> localStorage_throws e SetItem
                  then [Warn ''[BlockTracker] Failed to persist session:''] else [])"
  "now_reads (persisted this e) = now_reads e"
  "date_now (persisted this e) = date_now e"
  "localStorage (persisted this e) =
     (if cfg_persistSession (config this) \<and> \<not> localStorage_throws e SetItem
      then (localStorage e)(cfg_sessionStorageKey (config this) \<mapsto> Snapshot (state this))
      else localStorage e)"
  "localStorage_throws (persisted this e) = localStorage_throws e"
  "postMessage_throws (persisted this e) = postMessage_throws e"
  "sender_throws (persisted this e) = sender_throws e"
  "intervals (persisted this e) = intervals e"
  by (simp_all add: persisted_def)

lemma unpersisted_fields:
  "effects (unpersisted this e) =
     effects e @ (if cfg_persistSession (config this) \<and> localStorage_throws e RemoveItem
                  then [Warn ''[BlockTracker] Failed to clear session:''] else [])"
  "now_reads (unpersisted this e) = now_reads e"
  "date_now (unpersisted this e) = date_now e"
  "localStorage (unpersisted this e) =
     (if cfg_persistSession (config this) \<and> \<not> localStorage_throws e RemoveItem
      then (localStorage e)(cfg_sessionStorageKey (config this) := None)
      else localStorage e)"
  "localStorage_throws (unpersisted this e) = localStorage_throws e"
  "postMessage_throws (unpersisted this e) = postMessage_throws e"
  "sender_throws (unpersisted this e) = sender_throws e"
  by (simp_all add: unpersisted_def)

lemma timer_cleared_fields:
  "effects (timer_cleared this e) = effects e"
  "now_reads (timer_cleared this e) = now_reads e"
  "date_now (timer_cleared this e) = date_now e"
  "localStorage (timer_cleared this e) = localStorage e"
  "localStorage_throws (timer_cleared this e) = localStorage_throws e"
  "postMessage_throws (timer_cleared this e) = postMessage_throws e"
  "sender_throws (timer_cleared this e) = sender_throws e"
  by (simp_all add: timer_cleared_def split: option.split)

lemmas env_fields = tick_fields emit_fields persisted_fields unpersisted_fields timer_cleared_fields

lemma events_of_append: "events_of (xs @ ys) = events_of xs @ events_of ys"
  by (induction xs rule: events_of.induct) simp_all

lemma events_of_post: "set (events_of (post_effects e ev)) \<subseteq> {ev}"
  by (simp add: post_effects_def)

lemma events_of_senders: "set (events_of (sender_effects e ev ss)) \<subseteq> {ev}"
  by (induction ss) auto

lemma events_of_emit:
  "set (events_of (post_effects e ev @ sender_effects e ev ss)) \<subseteq> {ev}"
  using events_of_post [of e ev] events_of_senders [of e ev ss]
  by (simp add: events_of_append)

subsection \<open>Events of a call\<close>

lemma started_event_this:
  "started_event q k x now (this\<lparr> state := (state this)
      \<lparr> currentQuestionId := a, currentQuestionStartTime := b \<rparr> \<rparr>) = started_event q k x now this"
  by (simp add: started_event_def)

lemma time_to_answer_env:
  "snd (time_to_answer q this e) = e \<or> snd (time_to_answer q this e) = tick e"
  by (simp add: time_to_answer_def Date_now_tick split: option.split)

lemma time_to_answer_fields:
  "effects (snd (time_to_answer q this e)) = effects e"
  "date_now (snd (time_to_answer q this e)) = date_now e"
  "localStorage (snd (time_to_answer q this e)) = localStorage e"
  "localStorage_throws (snd (time_to_answer q this e)) = localStorage_throws e"
  "postMessage_throws (snd (time_to_answer q this e)) = postMessage_throws e"
  "sender_throws (snd (time_to_answer q this e)) = sender_throws e"
  using time_to_answer_env [of q this e] by (auto simp add: tick_fields)

lemma extends_refl: "extends e e evs"
  by (simp add: extends_def)

lemma extends_tick: "extends e e1 evs \<Longrightarrow> extends e (tick e1) evs"
  by (simp add: extends_def tick_fields)

lemma extends_emit:
  assumes "extends e e1 evs" "ev \<in> set evs"
  shows "extends e (emit ev this e1) evs"
proof -
  from assms(1) obtain xs where xs: "effects e1 = effects e @ xs" "set (events_of xs) \<subseteq> set evs"
    by (auto simp add: extends_def)
  let ?ys = "post_effects e1 ev @ sender_effects e1 ev (eventSenders this)"
  have "set (events_of ?ys) \<subseteq> set evs"
    using events_of_emit [of e1 ev "eventSenders this"] assms(2) by auto
  with xs have "effects (emit ev this e1) = effects e @ (xs @ ?ys)
                \<and> set (events_of (xs @ ?ys)) \<subseteq> set evs"
    by (simp add: emit_fields events_of_append)
  then show ?thesis
    unfolding extends_def by blast
qed

lemma extends_persisted: "extends e e1 evs \<Longrightarrow> extends e (persisted this e1) evs"
  by (auto simp add: extends_def persisted_fields events_of_append)

lemma extends_unpersisted: "extends e e1 evs \<Longrightarrow> extends e (unpersisted this e1) evs"
  by (auto simp add: extends_def unpersisted_fields events_of_append)

lemma extends_timer_cleared: "extends e e1 evs \<Longrightarrow> extends e (timer_cleared this e1) evs"
  by (simp add: extends_def timer_cleared_fields)

lemma extends_time_to_answer: "extends e (snd (time_to_answer q this e)) evs"
  by (simp add: extends_def time_to_answer_fields)

lemma extends_emitted: "extends e e1 evs \<Longrightarrow> set (emitted e e1) \<subseteq> set evs"
  by (auto simp add: extends_def emitted_def new_effects_def)

lemmas extends_intros = extends_persisted extends_unpersisted extends_timer_cleared
  extends_emit extends_tick extends_time_to_answer extends_refl

lemma perform_extends:
  "extends e (snd (snd (perform c (this, e)))) (sent_events c this e)"
proof (cases c)
  case (TrackInteraction k i d t u)
  then show ?thesis
    by (cases "cfg_trackInteractions (config this) \<and> \<not> isCompleted this")
       (auto simp add: trackInteraction_noop trackInteraction_active Let_def
          intro!: extends_intros)
next
  case (StartQuestion q k x)
  then show ?thesis
    by (cases "cfg_trackQuestions (config this) \<and> \<not> isCompleted this")
       (auto simp add: startQuestion_noop startQuestion_active Let_def started_event_this
          intro!: extends_intros)
next
  case (AnswerQuestion q a ca b s m opts)
  then show ?thesis
    by (cases "cfg_trackQuestions (config this) \<and> \<not> isCompleted this")
       (auto simp add: answerQuestion_noop answerQuestion_active Let_def time_to_answer_fields
          intro!: extends_intros)
next
  case (SkipQuestion q k)
  then show ?thesis
    by (cases "cfg_trackQuestions (config this) \<and> \<not> isCompleted this")
       (auto simp add: skipQuestion_noop skipQuestion_active Let_def
          intro!: extends_intros)
next
  case (Complete s m d)
  then show ?thesis
    by (cases "isCompleted this")
       (auto simp add: complete_noop complete_active Let_def intro!: extends_intros)
next
  case Abandon
  then show ?thesis
    by (cases "isCompleted this")
       (auto simp add: abandon_noop abandon_active Let_def abandoned_events_def
          intro!: extends_intros)
next
  case (AddEventListener cb)
  then show ?thesis by (simp add: addEventListener_def extends_refl)
next
  case (RemoveEventListener cb)
  then show ?thesis by (simp add: removeEventListener_def extends_refl)
next
  case ProgressTick
  then show ?thesis
    by (auto simp add: progress_tick_eq split: option.split intro!: extends_intros)
next
  case PageUnload
  then show ?thesis
    by (cases "isCompleted this")
       (auto simp add: unload_handler_eq abandon_noop abandon_active Let_def abandoned_events_def
          intro!: extends_intros)
qed

lemma perform_emitted:
  "set (emitted e (snd (snd (perform c (this, e))))) \<subseteq> set (sent_events c this e)"
  by (rule extends_emitted [OF perform_extends])

subsection \<open>Clock readings of a call\<close>

lemma reading_mem:
  "now_reads e \<le> k \<Longrightarrow> k < now_reads e' \<Longrightarrow> date_now e k \<in> set (readings e e')"
  by (simp add: readings_def)

lemma time_to_answer_reads:
  "now_reads e \<le> now_reads (snd (time_to_answer q this e))"
  using time_to_answer_env [of q this e] by (auto simp add: tick_fields)

lemma perform_now_reads:
  "now_reads (snd (snd (perform c (this, e)))) =
     (case c of
        TrackInteraction k i d t u \<Rightarrow>
          if cfg_trackInteractions (config this) \<and> \<not> isCompleted this
          then Suc (now_reads e) else now_reads e
      | StartQuestion q k x \<Rightarrow>
          if cfg_trackQuestions (config this) \<and> \<not> isCompleted this
          then Suc (Suc (now_reads e)) else now_reads e
      | AnswerQuestion q a c b s m opts \<Rightarrow>
          if cfg_trackQuestions (config this) \<and> \<not> isCompleted this
          then Suc (now_reads (snd (time_to_answer q this e))) else now_reads e
      | SkipQuestion q k \<Rightarrow>
          if cfg_trackQuestions (config this) \<and> \<not> isCompleted this
          then Suc (now_reads e) else now_reads e
      | Complete s m d \<Rightarrow> if isCompleted this then now_reads e else Suc (Suc (now_reads e))
      | Abandon \<Rightarrow> if isCompleted this then now_reads e else Suc (Suc (now_reads e))
      | PageUnload \<Rightarrow> if isCompleted this then now_reads e else Suc (Suc (now_reads e))
      | _ \<Rightarrow> now_reads e)"
proof (cases c)
  case (TrackInteraction k i d t u)
  then show ?thesis
    by (cases "cfg_trackInteractions (config this) \<and> \<not> isCompleted this")
       (auto simp add: trackInteraction_noop trackInteraction_active Let_def env_fields)
next
  case (StartQuestion q k x)
  then show ?thesis
    by (cases "cfg_trackQuestions (config this) \<and> \<not> isCompleted this")
       (auto simp add: startQuestion_noop startQuestion_active Let_def env_fields)
next
  case (AnswerQuestion q a ca b s m opts)
  then show ?thesis
    by (cases "cfg_trackQuestions (config this) \<and> \<not> isCompleted this")
       (auto simp add: answerQuestion_noop answerQuestion_active Let_def env_fields)
next
  case (SkipQuestion q k)
  then show ?thesis
    by (cases "cfg_trackQuestions (config this) \<and> \<not> isCompleted this")
       (auto simp add: skipQuestion_noop skipQuestion_active Let_def env_fields)
next
  case (Complete s m d)
  then show ?thesis
    by (cases "isCompleted this")
       (auto simp add: complete_noop complete_active Let_def env_fields)
next
  case Abandon
  then show ?thesis
    by (cases "isCompleted this")
       (auto simp add: abandon_noop abandon_active Let_def env_fields)
next
  case (AddEventListener cb)
  then show ?thesis by (simp add: addEventListener_def)
next
  case (RemoveEventListener cb)
  then show ?thesis by (simp add: removeEventListener_def)
next
  case ProgressTick
  then show ?thesis
    by (auto simp add: progress_tick_eq env_fields split: option.split)
next
  case PageUnload
  then show ?thesis
    by (cases "isCompleted this")
       (auto simp add: unload_handler_eq abandon_noop abandon_active Let_def env_fields)
qed

lemma sent_events_stamped:
  assumes "ev \<in> set (sent_events c this e)"
  shows "well_stamped (sessionId (state this)) (readings e (snd (snd (perform c (this, e))))) ev"
proof (cases c)
  case (TrackInteraction k i d t u)
  with assms perform_now_reads [of c this e] show ?thesis
    by (auto simp add: well_stamped_def interaction_event_def 
        split: if_splits intro!: reading_mem)
next
  case (StartQuestion q k x)
  with assms perform_now_reads [of c this e] show ?thesis
    by (auto simp add: well_stamped_def started_event_def 
        split: if_splits intro!: reading_mem)
next
  case (AnswerQuestion q a ca b s m opts)
  with assms perform_now_reads [of c this e] time_to_answer_reads [of e q this] show ?thesis
    by (auto simp add: well_stamped_def answered_event_def 
        split: if_splits intro!: reading_mem)
next
  case (SkipQuestion q k)
  with assms perform_now_reads [of c this e] show ?thesis
    by (auto simp add: well_stamped_def skipped_event_def 
        split: if_splits intro!: reading_mem)
next
  case (Complete s m d)
  with assms perform_now_reads [of c this e] show ?thesis
    by (auto simp add: well_stamped_def session_event_def legacy_event_def 
        Let_def split: if_splits intro!: reading_mem)
next
  case Abandon
  with assms perform_now_reads [of c this e] show ?thesis
    by (auto simp add: well_stamped_def session_event_def abandoned_events_def 
        Let_def split: if_splits intro!: reading_mem)
next
  case PageUnload
  with assms perform_now_reads [of c this e] show ?thesis
    by (auto simp add: well_stamped_def session_event_def abandoned_events_def 
        Let_def split: if_splits intro!: reading_mem)
qed (use assms in simp_all)

subsection \<open>The constructor\<close>

lemma create_session_eq:
  "create_session cfg e =
     (\<lparr> sessionId = ''session_'' @ show_int (date_now e (now_reads e)) @ ''_''
                      @ math_random e (random_reads e),
        blockId = Some (cfg_blockId cfg),
        startTime = date_now e (Suc (now_reads e)),
        interactions = [], questions = [], slides = [],
        currentQuestionId = None, currentQuestionStartTime = None,
        totalInteractions = 0, totalQuestions = 0, correctQuestions = 0 \<rparr>,
      e\<lparr> now_reads := Suc (Suc (now_reads e)), random_reads := Suc (random_reads e) \<rparr>)"
  by (simp add: create_session_def Date_now_def Math_random_def)

lemma restoreOrCreateSession_fields:
  "date_now (snd (restoreOrCreateSession cfg e)) = date_now e"
  "localStorage (snd (restoreOrCreateSession cfg e)) = localStorage e"
  "localStorage_throws (snd (restoreOrCreateSession cfg e)) = localStorage_throws e"
  "postMessage_throws (snd (restoreOrCreateSession cfg e)) = postMessage_throws e"
  "sender_throws (snd (restoreOrCreateSession cfg e)) = sender_throws e"
  "now_reads e \<le> now_reads (snd (restoreOrCreateSession cfg e))"
  "events_of (new_effects e (snd (restoreOrCreateSession cfg e))) = []"
  by (simp_all add: restoreOrCreateSession_def create_session_eq record_effect_def
      new_effects_def split: completion.split)

lemma restoreOrCreateSession_extends: "extends e (snd (restoreOrCreateSession cfg e)) evs"
  by (simp add: extends_def restoreOrCreateSession_def create_session_eq record_effect_def
      split: completion.split)

lemma setInterval_fields:
  "effects (snd (setInterval e)) = effects e"
  "now_reads (snd (setInterval e)) = now_reads e"
  "date_now (snd (setInterval e)) = date_now e"
  "localStorage (snd (setInterval e)) = localStorage e"
  "localStorage_throws (snd (setInterval e)) = localStorage_throws e"
  "postMessage_throws (snd (setInterval e)) = postMessage_throws e"
  "sender_throws (snd (setInterval e)) = sender_throws e"
  by (simp_all add: setInterval_def)

lemma new_BlockTracker_state:
  "state (fst (snd (new_BlockTracker c e)))
     = held_state (fst (restoreOrCreateSession (default_config c) e))"
  "config (fst (snd (new_BlockTracker c e))) = default_config c"
  "isCompleted (fst (snd (new_BlockTracker c e))) = False"
  "eventSenders (fst (snd (new_BlockTracker c e))) = []"
  by (cases "fst (restoreOrCreateSession (default_config c) e)";
      simp add: new_BlockTracker_full new_BlockTracker_fragment Let_def held_state_def)+

lemma extends_effects_eq: "effects e2 = effects e1 \<Longrightarrow> extends e e1 evs \<Longrightarrow> extends e e2 evs"
  by (simp add: extends_def)

lemma new_BlockTracker_extends:
  "extends e (snd (snd (new_BlockTracker c e))) (started_events c e)"
proof (cases "fst (restoreOrCreateSession (default_config c) e)")
  case (FullState st)
  let ?cfg = "default_config c"
  let ?e1 = "snd (restoreOrCreateSession ?cfg e)"
  let ?trk = "\<lparr> config = ?cfg, state = st, isCompleted = False,
                 eventSenders = [], progressTimer = None \<rparr>"
  let ?ev = "BLOCK_SESSION (session_event SessionStarted None
               (date_now ?e1 (now_reads ?e1) - startTime st)
               (date_now ?e1 (Suc (now_reads ?e1))) ?trk)"
  have "extends e (emit ?ev ?trk (tick (tick ?e1))) (started_events c e)"
    by (intro extends_emit extends_tick restoreOrCreateSession_extends)
       (simp add: started_events_def Let_def restoreOrCreateSession_fields FullState)
  then show ?thesis
    by (auto simp add: new_BlockTracker_full [OF FullState] Let_def setInterval_fields
        elim!: extends_effects_eq [rotated])
next
  case (FragmentState b)
  show ?thesis
    by (simp add: new_BlockTracker_fragment [OF FragmentState])
       (intro extends_tick restoreOrCreateSession_extends)
qed

lemma new_BlockTracker_now_reads:
  "fst (restoreOrCreateSession (default_config c) e) = FullState st \<Longrightarrow>
   now_reads (snd (snd (new_BlockTracker c e)))
     = Suc (Suc (now_reads (snd (restoreOrCreateSession (default_config c) e))))"
  "date_now (snd (snd (new_BlockTracker c e))) = date_now e"
  by (cases "fst (restoreOrCreateSession (default_config c) e)";
      simp add: new_BlockTracker_full new_BlockTracker_fragment Let_def setInterval_fields
        env_fields restoreOrCreateSession_fields)+

lemma started_events_stamped:
  assumes "ev \<in> set (started_events c e)"
  shows "well_stamped (sessionId (state (fst (snd (new_BlockTracker c e)))))
           (readings e (snd (snd (new_BlockTracker c e)))) ev"
proof (cases "fst (restoreOrCreateSession (default_config c) e)")
  case (FullState st)
  with assms restoreOrCreateSession_fields(6) [of e "default_config c"] show ?thesis
    by (auto simp add: started_events_def Let_def well_stamped_def session_event_def
        new_BlockTracker_state held_state_def new_BlockTracker_now_reads intro!: reading_mem)
next
  case (FragmentState b)
  with assms show ?thesis
    by (simp add: started_events_def Let_def)
qed


subsection \<open>Session summaries\<close>

lemma foldl_plus: "foldl (\<lambda>sum q. sum + f q) a xs = a + sum_list (map f xs)"
  for a :: int
  by (induction xs arbitrary: a) simp_all

lemma summary_accuracy:
  "sm_accuracyRate (session_summary ty d ts st) = accuracy_rate (questions st)"
  by (simp add: session_summary_def accuracy_rate_def answered_def Let_def)

lemma summary_average:
  "sm_averageTimePerQuestion (session_summary ty d ts st) = mean_answer_time (questions st)"
  by (simp add: session_summary_def mean_answer_time_def answered_def Let_def foldl_plus)

lemma session_event_summary:
  "se_summary (session_event ty d ts now this) = session_summary ty d ts (state this)"
  by (simp add: session_event_def Let_def)

lemma sent_session_events:
  assumes "se \<in> set (session_events (sent_events c this e))"
  shows "\<exists>ty d ts. se_summary se = session_summary ty d ts (state this)"
  using assms
  by (cases c) (auto simp add: session_event_summary abandoned_events_def split: if_splits)

lemma started_session_events:
  assumes "se \<in> set (session_events (started_events c e))"
  shows "\<exists>ty d ts. se_summary se = session_summary ty d ts (state (fst (snd (new_BlockTracker c e))))"
  using assms
  by (cases "fst (restoreOrCreateSession (default_config c) e)")
     (auto simp add: started_events_def Let_def session_event_summary new_BlockTracker_state
        held_state_def)

lemma session_events_mono:
  "set xs \<subseteq> set ys \<Longrightarrow> set (session_events xs) \<subseteq> set (session_events ys)"
proof -
  have mem: "se \<in> set (session_events zs) \<longleftrightarrow> BLOCK_SESSION se \<in> set zs" for se zs
    by (induction zs rule: session_events.induct) auto
  show "set xs \<subseteq> set ys \<Longrightarrow> set (session_events xs) \<subseteq> set (session_events ys)"
    by (auto simp add: mem)
qed

lemma emitted_summaries:
  assumes "se \<in> set (session_events (emitted e (snd (snd (perform c (this, e))))))"
  shows "\<exists>ty d ts. se_summary se = session_summary ty d ts (state this)"
  using assms session_events_mono [OF perform_emitted, of e c this] sent_session_events
  by blast

lemma constructed_summaries:
  assumes "se \<in> set (session_events (emitted e (snd (snd (new_BlockTracker c e)))))"
  shows "\<exists>ty d ts. se_summary se = session_summary ty d ts (state (fst (snd (new_BlockTracker c e))))"
  using assms session_events_mono [OF extends_emitted [OF new_BlockTracker_extends], of e c]
    started_session_events
  by blast

subsection \<open>Runs and the counter invariant\<close>

lemma run_Nil: "run [] s = (None, s)"
  by (simp add: run_def)

lemma run_Cons: "run (c # cs) (this, e) = run cs (snd (perform c (this, e)))"
  using perform_returns [of c this e]
  by (cases "perform c (this, e)") (simp add: run_def proc_seq_def)

lemma perform_counters:
  assumes "counters_ok (state this)"
  shows "counters_ok (state (fst (snd (perform c (this, e)))))"
proof (cases c)
  case (TrackInteraction k i d t u)
  with assms show ?thesis
    by (cases "cfg_trackInteractions (config this) \<and> \<not> isCompleted this")
       (auto simp add: trackInteraction_noop trackInteraction_active Let_def counters_ok_def)
next
  case (StartQuestion q k x)
  with assms show ?thesis
    by (cases "cfg_trackQuestions (config this) \<and> \<not> isCompleted this")
       (auto simp add: startQuestion_noop startQuestion_active Let_def counters_ok_def
          started_event_def)
next
  case (AnswerQuestion q a ca b s m opts)
  with assms show ?thesis
    by (cases "cfg_trackQuestions (config this) \<and> \<not> isCompleted this")
       (auto simp add: answerQuestion_noop answerQuestion_active Let_def counters_ok_def
          answered_event_def)
next
  case (SkipQuestion q k)
  with assms show ?thesis
    by (cases "cfg_trackQuestions (config this) \<and> \<not> isCompleted this")
       (auto simp add: skipQuestion_noop skipQuestion_active Let_def counters_ok_def
          skipped_event_def)
next
  case (Complete s m d)
  with assms show ?thesis
    by (cases "isCompleted this") (simp_all add: complete_noop complete_active Let_def)
next
  case Abandon
  with assms show ?thesis
    by (cases "isCompleted this") (simp_all add: abandon_noop abandon_active Let_def)
next
  case (AddEventListener cb)
  with assms show ?thesis by (simp add: addEventListener_def)
next
  case (RemoveEventListener cb)
  with assms show ?thesis by (simp add: removeEventListener_def)
next
  case ProgressTick
  with assms show ?thesis by (simp add: progress_tick_eq)
next
  case PageUnload
  with assms show ?thesis
    by (cases "isCompleted this")
       (simp_all add: unload_handler_eq abandon_noop abandon_active Let_def)
qed

lemma run_counters:
  assumes "counters_ok (state this)"
  shows "counters_ok (state (fst (snd (run cs (this, e)))))"
  using assms
proof (induction cs arbitrary: this e)
  case Nil
  then show ?case by (simp add: run_Nil)
next
  case (Cons c cs)
  obtain this' e' where step: "snd (perform c (this, e)) = (this', e')"
    by (cases "snd (perform c (this, e))")
  have "counters_ok (state this')"
    using perform_counters [OF Cons.prems, of c e] by (simp add: step)
  then have "counters_ok (state (fst (snd (run cs (this', e')))))"
    by (rule Cons.IH)
  then show ?case by (simp add: run_Cons step)
qed

lemma fresh_counters:
  assumes "\<not> restores cfg e"
  shows "counters_ok (held_state (fst (restoreOrCreateSession cfg e)))"
  using assms
  by (auto simp add: restores_def restoreOrCreateSession_def create_session_eq counters_ok_def
      held_state_def split: completion.splits if_splits)

subsection \<open>Persistence and restore\<close>

lemma restore_cases:
  assumes "cfg_persistSession cfg"
  shows "fst (restoreOrCreateSession cfg e) =
           (case stored_session cfg e of
              Some v \<Rightarrow> v
            | None \<Rightarrow> FullState (fst (create_session cfg e)))"
  using assms
  by (simp add: restoreOrCreateSession_def try_restore_def stored_session_def create_session_eq
      record_effect_def split: option.split stored.split)

lemma restore_synced:
  assumes "synced this e" "cfg_persistSession (config this)"
    and "blockId (state this) = Some (cfg_blockId (config this))"
    and "\<not> localStorage_throws e GetItem" "default_config c = config this"
  shows "state (fst (snd (new_BlockTracker c e))) = state this"
  using assms
  by (simp add: new_BlockTracker_state restore_cases stored_session_def synced_def
      held_state_def)















lemma perform_keeps_record:
  assumes "\<not> is_complete c" "localStorage e (cfg_sessionStorageKey (config this)) \<noteq> None"
  shows "localStorage (snd (snd (perform c (this, e)))) (cfg_sessionStorageKey (config this)) \<noteq> None"
proof (cases c)
  case (TrackInteraction k i d t u)
  with assms show ?thesis
    by (cases "cfg_trackInteractions (config this) \<and> \<not> isCompleted this")
       (auto simp add: trackInteraction_noop trackInteraction_active Let_def env_fields)
next
  case (StartQuestion q k x)
  with assms show ?thesis
    by (cases "cfg_trackQuestions (config this) \<and> \<not> isCompleted this")
       (auto simp add: startQuestion_noop startQuestion_active Let_def env_fields)
next
  case (AnswerQuestion q a ca b s m opts)
  with assms show ?thesis
    by (cases "cfg_trackQuestions (config this) \<and> \<not> isCompleted this")
       (auto simp add: answerQuestion_noop answerQuestion_active Let_def env_fields
          time_to_answer_fields)
next
  case (SkipQuestion q k)
  with assms show ?thesis
    by (cases "cfg_trackQuestions (config this) \<and> \<not> isCompleted this")
       (auto simp add: skipQuestion_noop skipQuestion_active Let_def env_fields)
next
  case (Complete s m d)
  with assms show ?thesis by simp
next
  case Abandon
  with assms show ?thesis
    by (cases "isCompleted this")
       (auto simp add: abandon_noop abandon_active Let_def env_fields)
next
  case (AddEventListener cb)
  with assms show ?thesis by (simp add: addEventListener_def)
next
  case (RemoveEventListener cb)
  with assms show ?thesis by (simp add: removeEventListener_def)
next
  case ProgressTick
  with assms show ?thesis
    by (auto simp add: progress_tick_eq env_fields split: option.split)
next
  case PageUnload
  with assms show ?thesis
    by (cases "isCompleted this")
       (auto simp add: unload_handler_eq abandon_noop abandon_active Let_def env_fields)
qed

lemma abandon_frame:
  "localStorage (snd (snd (abandon (this, e)))) = localStorage e"
  "localStorage_throws (snd (snd (abandon (this, e)))) = localStorage_throws e"
  "state (fst (snd (abandon (this, e)))) = state this"
  "config (fst (snd (abandon (this, e)))) = config this"
  "isCompleted (fst (snd (abandon (this, e))))"
  by (cases "isCompleted this";
      simp add: abandon_noop abandon_active Let_def env_fields)+

lemma complete_clears_record:
  assumes "cfg_persistSession (config this)" "\<not> isCompleted this"
    and "\<not> localStorage_throws e RemoveItem"
  shows "localStorage (snd (snd (complete s m d (this, e)))) (cfg_sessionStorageKey (config this))
           = None"
  using assms by (simp add: complete_active Let_def env_fields)

subsection \<open>The example tracker\<close>

lemma example_config_defaults:
  "cfg_blockId (default_config example_config) = ''quiz''"
  "cfg_trackInteractions (default_config example_config)"
  "cfg_trackQuestions (default_config example_config)"
  "cfg_sendDetailedEvents (default_config example_config)"
  "cfg_sendSummaryEvent (default_config example_config)"
  "cfg_sendLegacyEvent (default_config example_config)"
  "cfg_persistSession (default_config example_config)"
  "cfg_progressUpdateInterval (default_config example_config) = 0"
  "cfg_sessionStorageKey (default_config example_config) = ''blockTracker_quiz''"
  by (simp_all add: default_config_def example_config_def or_empty_def)

lemma example_fresh: "\<not> restores (default_config example_config) example_env"
  by (simp add: restores_def try_restore_def example_env_def)

lemma example_session:
  "restoreOrCreateSession (default_config example_config) example_env =
     (FullState \<lparr> sessionId = ''session_'' @ show_int 1000 @ ''_k3x9q2a'',
        blockId = Some ''quiz'',
        startTime = 1010,
        interactions = [], questions = [], slides = [],
        currentQuestionId = None, currentQuestionStartTime = None,
        totalInteractions = 0, totalQuestions = 0, correctQuestions = 0 \<rparr>,
      example_env\<lparr> now_reads := 2, random_reads := 1 \<rparr>)"
  by (simp add: restoreOrCreateSession_def try_restore_def create_session_eq
      example_config_defaults example_env_def)

lemma example_tracker_parts:
  "config example_this = default_config example_config"
  "isCompleted example_this = False"
  "eventSenders example_this = []"
  "progressTimer example_this = None"
  "state example_this =
     \<lparr> sessionId = ''session_'' @ show_int 1000 @ ''_k3x9q2a'',
       blockId = Some ''quiz'',
       startTime = 1010,
       interactions = [], questions = [], slides = [],
       currentQuestionId = None, currentQuestionStartTime = None,
       totalInteractions = 0, totalQuestions = 0, correctQuestions = 0 \<rparr>"
  by (simp_all add: example_this_def example_page_def new_BlockTracker_full Let_def example_session
      example_config_defaults)

lemma example_tracker_page:
  "postMessage_throws example_page = (\<lambda>tgt ev. False)"
  "localStorage_throws example_page = (\<lambda>op. False)"
  "sender_throws example_page = (\<lambda>s ev. s = 1)"
  "date_now example_page = (\<lambda>n. 1000 + 10 * int n)"
  "now_reads example_page = 4"
  "localStorage example_page = Map.empty"
  by (simp_all add: example_this_def example_page_def new_BlockTracker_full Let_def example_session
      example_config_defaults env_fields)
     (simp_all add: example_env_def)

lemmas example_eval = example_quiz_calls_def run_Cons run_Nil startQuestion_active
  answerQuestion_active example_tracker_parts example_config_defaults Let_def time_to_answer_def
  Date_now_tick env_fields example_tracker_page

lemma example_quiz_parts:
  "config example_quiz_this = default_config example_config"
  "isCompleted example_quiz_this = False"
  "eventSenders example_quiz_this = []"
  "progressTimer example_quiz_this = None"
  "sessionId (state example_quiz_this) = sessionId (state example_this)"
  "startTime (state example_quiz_this) = 1010"
  "map qe_eventType (questions (state example_quiz_this)) = [QStarted, QAnswered, QAnswered]"
  "map qe_timeToAnswer (questions (state example_quiz_this)) = [None, Some 20, None]"
  "map qe_isCorrect (questions (state example_quiz_this)) = [None, Some True, Some False]"
  "totalQuestions (state example_quiz_this) = 2"
  "correctQuestions (state example_quiz_this) = 1"
  by (simp_all add: example_quiz_this_def example_eval started_event_def answered_event_def)

lemma example_quiz_page_parts:
  "postMessage_throws example_quiz_page = (\<lambda>tgt ev. False)"
  "localStorage_throws example_quiz_page = (\<lambda>op. False)"
  "date_now example_quiz_page = (\<lambda>n. 1000 + 10 * int n)"
  "now_reads example_quiz_page = 9"
  by (simp_all add: example_quiz_page_def example_eval)


lemma example_quiz_rates:
  "accuracy_rate (questions (state example_quiz_this)) = Some (1 / 2)"
  "mean_answer_time (questions (state example_quiz_this)) = Some 10"
  "mean_defined_time (questions (state example_quiz_this)) = Some 20"
  by (simp_all add: example_quiz_this_def example_eval started_event_def answered_event_def
      accuracy_rate_def mean_answer_time_def mean_defined_time_def defined_times_def answered_def)

lemma example_quiz_completed:
  "emitted example_quiz_page
     (snd (snd (perform (Complete None None None) (example_quiz_this, example_quiz_page))))
   = [BLOCK_SESSION (session_event SessionCompleted
        (Some \<lparr> sd_score = None, sd_maxScore = None, sd_timeSpent = Some 80,
                sd_additionalData = None \<rparr>) 80 1100 (example_quiz_this\<lparr> isCompleted := True \<rparr>)),
      BLOCK_SESSION (session_event SessionCompleted
        (Some \<lparr> sd_score = None, sd_maxScore = None, sd_timeSpent = Some 80,
                sd_additionalData = None \<rparr>) 80 1100 (example_quiz_this\<lparr> isCompleted := True \<rparr>)),
      BLOCK_COMPLETION (legacy_event None None (Some 80) None),
      BLOCK_COMPLETION (legacy_event None None (Some 80) None)]"
  by (simp add: complete_active example_quiz_parts example_config_defaults Let_def
      emitted_def new_effects_def env_fields post_effects_def example_quiz_page_parts)

lemma example_quiz_synced:
  "synced example_quiz_this example_quiz_page"
  "blockId (state example_quiz_this) = Some ''quiz''"
  by (simp_all add: synced_def example_quiz_this_def example_quiz_page_def example_eval)



subsection \<open>Registered content: first registration wins\<close>

lemma new_RegisteredContent_instance:
  "fst (new_RegisteredContent dto w) =
     \<lparr> rc_id = dto_id dto, rc_jsonFilePath = dto_jsonFilePath dto,
       rc_storeFilePath = dto_storeFilePath dto, rc_componentPath = dto_componentPath dto,
       rc_data = dto_data dto \<rparr>"
  by (simp add: new_RegisteredContent_def Let_def)

lemma new_RegisteredContent_known:
  assumes "registeredContents w (dto_id dto) \<noteq> None"
  shows "snd (new_RegisteredContent dto w) = w"
  using assms by (simp add: new_RegisteredContent_def Let_def)

lemma new_RegisteredContent_unknown:
  assumes "registeredContents w (dto_id dto) = None"
  shows "snd (new_RegisteredContent dto w) =
           w\<lparr> registeredContents :=
                (registeredContents w)(dto_id dto \<mapsto> fst (new_RegisteredContent dto w)),
              parentMessages :=
                parentMessages w @ [init_message (fst (new_RegisteredContent dto w))] \<rparr>"
  using assms by (simp add: new_RegisteredContent_def Let_def init_message_def)

text \<open>
  C8. Constructing a store whose id the registry already holds changes neither the
  registry nor the messages posted (no \<open>editor:init\<close>). Constructing one whose id is new
  records the new instance under that id and posts exactly one message, the
  \<open>editor:init\<close> carrying the instance's id, its three paths and its whole data tree.
  Hence after a first construction with a new id and a second one with the same id
  (whatever its paths and data), the registry maps the id to the first instance and the
  only message added is the first instance's announcement.
\<close>

theorem registered_content_first_writer_wins:
  "(registeredContents w (dto_id dto) \<noteq> None \<longrightarrow>
      snd (new_RegisteredContent dto w) = w)
   \<and> (registeredContents w (dto_id dto) = None \<longrightarrow>
        registeredContents (snd (new_RegisteredContent dto w)) =
          (registeredContents w)(dto_id dto \<mapsto> fst (new_RegisteredContent dto w))
        \<and> parentMessages (snd (new_RegisteredContent dto w)) =
            parentMessages w @
              [EditorInit \<lparr> ip_storeId = dto_id dto,
                            ip_jsonFilePath = dto_jsonFilePath dto,
                            ip_storeFilePath = dto_storeFilePath dto,
                            ip_componentPath = dto_componentPath dto,
                            ip_data = dto_data dto \<rparr>])
   \<and> (registeredContents w (dto_id dto) = None \<and> dto_id dto2 = dto_id dto \<longrightarrow>
        registeredContents
            (snd (new_RegisteredContent dto2 (snd (new_RegisteredContent dto w))))
            (dto_id dto)
          = Some (fst (new_RegisteredContent dto w))
        \<and> parentMessages
            (snd (new_RegisteredContent dto2 (snd (new_RegisteredContent dto w))))
          = parentMessages w @ [init_message (fst (new_RegisteredContent dto w))])"
proof (intro conjI impI)
  assume "registeredContents w (dto_id dto) \<noteq> None"
  then show "snd (new_RegisteredContent dto w) = w"
    by (rule new_RegisteredContent_known)
next
  assume fresh: "registeredContents w (dto_id dto) = None"
  show "registeredContents (snd (new_RegisteredContent dto w)) =
          (registeredContents w)(dto_id dto \<mapsto> fst (new_RegisteredContent dto w))"
    by (simp add: new_RegisteredContent_unknown [OF fresh])
next
  assume fresh: "registeredContents w (dto_id dto) = None"
  show "parentMessages (snd (new_RegisteredContent dto w)) =
          parentMessages w @
            [EditorInit \<lparr> ip_storeId = dto_id dto,
                          ip_jsonFilePath = dto_jsonFilePath dto,
                          ip_storeFilePath = dto_storeFilePath dto,
                          ip_componentPath = dto_componentPath dto,
                          ip_data = dto_data dto \<rparr>]"
    using fresh by (simp add: new_RegisteredContent_def Let_def)
next
  assume h: "registeredContents w (dto_id dto) = None \<and> dto_id dto2 = dto_id dto"
  let ?w1 = "snd (new_RegisteredContent dto w)"
  have w1: "?w1 = w\<lparr> registeredContents :=
                (registeredContents w)(dto_id dto \<mapsto> fst (new_RegisteredContent dto w)),
              parentMessages :=
                parentMessages w @ [init_message (fst (new_RegisteredContent dto w))] \<rparr>"
    using h by (simp add: new_RegisteredContent_unknown)
  have "registeredContents ?w1 (dto_id dto2) \<noteq> None"
    using h by (simp add: w1)
  then have inert: "snd (new_RegisteredContent dto2 ?w1) = ?w1"
    by (rule new_RegisteredContent_known)
  show "registeredContents (snd (new_RegisteredContent dto2 ?w1)) (dto_id dto)
          = Some (fst (new_RegisteredContent dto w))"
    by (simp add: inert) (simp add: w1)
next
  assume h: "registeredContents w (dto_id dto) = None \<and> dto_id dto2 = dto_id dto"
  let ?w1 = "snd (new_RegisteredContent dto w)"
  have w1: "?w1 = w\<lparr> registeredContents :=
                (registeredContents w)(dto_id dto \<mapsto> fst (new_RegisteredContent dto w)),
              parentMessages :=
                parentMessages w @ [init_message (fst (new_RegisteredContent dto w))] \<rparr>"
    using h by (simp add: new_RegisteredContent_unknown)
  have "registeredContents ?w1 (dto_id dto2) \<noteq> None"
    using h by (simp add: w1)
  then have inert: "snd (new_RegisteredContent dto2 ?w1) = ?w1"
    by (rule new_RegisteredContent_known)
  show "parentMessages (snd (new_RegisteredContent dto2 ?w1))
          = parentMessages w @ [init_message (fst (new_RegisteredContent dto w))]"
    by (simp add: inert) (simp add: w1)
qed

theorem registered_content_first_writer_wins_witness:
  "registeredContents
      (snd (new_RegisteredContent
              \<lparr> dto_id = ''store'', dto_jsonFilePath = ''b.json'', dto_storeFilePath = ''b.ts'',
                dto_componentPath = ''b.tsx'', dto_data = JStr ''second'' \<rparr>
              (snd (new_RegisteredContent
                      \<lparr> dto_id = ''store'', dto_jsonFilePath = ''a.json'',
                        dto_storeFilePath = ''a.ts'', dto_componentPath = ''a.tsx'',
                        dto_data = JStr ''first'' \<rparr>
                      initial_window))))
      ''store''
    = Some \<lparr> rc_id = ''store'', rc_jsonFilePath = ''a.json'', rc_storeFilePath = ''a.ts'',
             rc_componentPath = ''a.tsx'', rc_data = JStr ''first'' \<rparr>
   \<and> parentMessages
      (snd (new_RegisteredContent
              \<lparr> dto_id = ''store'', dto_jsonFilePath = ''b.json'', dto_storeFilePath = ''b.ts'',
                dto_componentPath = ''b.tsx'', dto_data = JStr ''second'' \<rparr>
              (snd (new_RegisteredContent
                      \<lparr> dto_id = ''store'', dto_jsonFilePath = ''a.json'',
                        dto_storeFilePath = ''a.ts'', dto_componentPath = ''a.tsx'',
                        dto_data = JStr ''first'' \<rparr>
                      initial_window))))
    = [EditorInit \<lparr> ip_storeId = ''store'', ip_jsonFilePath = ''a.json'',
                    ip_storeFilePath = ''a.ts'', ip_componentPath = ''a.tsx'',
                    ip_data = JStr ''first'' \<rparr>]"
  using registered_content_first_writer_wins
    [of initial_window
        "\<lparr> dto_id = ''store'', dto_jsonFilePath = ''a.json'', dto_storeFilePath = ''a.ts'',
           dto_componentPath = ''a.tsx'', dto_data = JStr ''first'' \<rparr>"
        "\<lparr> dto_id = ''store'', dto_jsonFilePath = ''b.json'', dto_storeFilePath = ''b.ts'',
           dto_componentPath = ''b.tsx'', dto_data = JStr ''second'' \<rparr>"]
  by (simp add: initial_window_def new_RegisteredContent_instance init_message_def)

subsection \<open>Listener failures are contained\<close>

text \<open>
  C9. For every event, tracker and page: \<open>sendEvent\<close> returns without an exception;
  the listener calls it makes are exactly the registered listeners, in order, each with
  the event, whichever of them throw; the messages it posts are those it would post
  with no listener registered, and when \<open>postMessage\<close> itself does not throw they are
  the post to the window and the post to the parent. No public call of the tracker
  returns with an exception.
\<close>

theorem listener_failures_contained:
  "fst (sendEvent event this e) = None
   \<and> invocations (new_effects e (snd (sendEvent event this e)))
       = map (\<lambda>s. (s, event)) (eventSenders this)
   \<and> posts (new_effects e (snd (sendEvent event this e)))
       = posts (new_effects e (snd (sendEvent event (this\<lparr> eventSenders := [] \<rparr>) e)))
   \<and> (\<not> postMessage_throws e Self event \<and> \<not> postMessage_throws e Parent event \<longrightarrow>
        posts (new_effects e (snd (sendEvent event this e))) = [(Self, event), (Parent, event)])
   \<and> fst (perform c (this, e)) = None"
  by (simp add: sendEvent_emit new_effects_emit invocations_append posts_append
      invocations_sender_effects posts_sender_effects invocations_post_effects perform_returns
      post_effects_def)
text \<open>
  On the example page listener 1 throws: with listeners 1 and 2 registered, both are
  called and both posts are made.
\<close>

theorem listener_failures_contained_witness:
  "sender_throws example_env 1 (BLOCK_COMPLETION (legacy_event None None None None))
   \<and> invocations (new_effects example_env
        (snd (sendEvent (BLOCK_COMPLETION (legacy_event None None None None))
                (example_this\<lparr> eventSenders := [1, 2] \<rparr>) example_env)))
       = [(1, BLOCK_COMPLETION (legacy_event None None None None)),
          (2, BLOCK_COMPLETION (legacy_event None None None None))]
   \<and> posts (new_effects example_env
        (snd (sendEvent (BLOCK_COMPLETION (legacy_event None None None None))
                (example_this\<lparr> eventSenders := [1, 2] \<rparr>) example_env)))
       = [(Self, BLOCK_COMPLETION (legacy_event None None None None)),
          (Parent, BLOCK_COMPLETION (legacy_event None None None None))]"
proof -
  let ?ev = "BLOCK_COMPLETION (legacy_event None None None None)"
  let ?trk = "example_this\<lparr> eventSenders := [1, 2] \<rparr>"
  note t = listener_failures_contained [of ?ev ?trk example_env Abandon]
  have faulty: "sender_throws example_env 1 ?ev"
    by (simp add: example_env_def)
  have channel: "\<not> postMessage_throws example_env Self ?ev
                 \<and> \<not> postMessage_throws example_env Parent ?ev"
    by (simp add: example_env_def)
  have calls: "invocations (new_effects example_env (snd (sendEvent ?ev ?trk example_env)))
                 = [(1, ?ev), (2, ?ev)]"
    using t by simp
  have delivered: "posts (new_effects example_env (snd (sendEvent ?ev ?trk example_env)))
                     = [(Self, ?ev), (Parent, ?ev)]"
    using t channel by blast
  from faulty calls delivered show ?thesis by blast
qed


subsection \<open>Terminal states are absorbing\<close>

lemma perform_completed:
  assumes "isCompleted this" "is_mutating c"
  shows "perform c (this, e) = (None, (this, e))"
  using assms
  by (cases c)
     (simp_all add: trackInteraction_noop startQuestion_noop answerQuestion_noop
        skipQuestion_noop complete_noop abandon_noop)

lemma run_completed:
  assumes "isCompleted this" "list_all is_mutating cs"
  shows "run cs (this, e) = (None, (this, e))"
  using assms
proof (induction cs)
  case Nil
  show ?case by (simp add: run_def)
next
  case (Cons c cs)
  then have "perform c (this, e) = (None, (this, e))"
    by (simp add: perform_completed)
  with Cons show ?case
    by (simp add: run_def proc_seq_def)
qed

lemma terminal_completes:
  assumes "is_terminal c"
  shows "isCompleted (fst (snd (perform c (this, e))))"
proof (cases c)
  case (Complete s m d)
  then show ?thesis
    by (cases "isCompleted this") (simp_all add: complete_noop complete_active Let_def)
next
  case Abandon
  then show ?thesis
    by (cases "isCompleted this") (simp_all add: abandon_noop abandon_active Let_def)
qed (use assms in simp_all)

text \<open>
  C2. After \<open>complete\<close> or \<open>abandon\<close> has run, from any tracker and page, the session
  is completed, and any further sequence of \<open>trackInteraction\<close>, \<open>startQuestion\<close>,
  \<open>answerQuestion\<close>, \<open>skipQuestion\<close>, \<open>complete\<close> and \<open>abandon\<close> calls returns with
  the tracker and the page (its effects, its storage, its clock) exactly as they were:
  nothing is recorded and nothing is emitted, so a second \<open>complete\<close> sends no second
  completed or legacy event, and \<open>abandon\<close> after \<open>complete\<close> or \<open>complete\<close> after
  \<open>abandon\<close> does nothing.
\<close>

theorem terminal_states_absorbing:
  assumes "is_terminal c0" and "list_all is_mutating cs"
  shows "isCompleted (fst (snd (perform c0 (this, e))))
         \<and> run cs (snd (perform c0 (this, e))) = (None, snd (perform c0 (this, e)))"
proof -
  obtain this' e' where s': "snd (perform c0 (this, e)) = (this', e')"
    by (cases "snd (perform c0 (this, e))")
  have fin: "isCompleted this'"
    using terminal_completes [OF assms(1), of this e] by (simp add: s')
  then have "run cs (this', e') = (None, (this', e'))"
    using assms(2) by (rule run_completed)
  with fin show ?thesis by (simp add: s')
qed

theorem terminal_states_absorbing_witness:
  "is_terminal (Complete (Some 1) (Some 1) None)
   \<and> list_all is_mutating
        [TrackInteraction Click None None None None,
         StartQuestion ''q1'' MultipleChoice None,
         AnswerQuestion ''q1'' (JStr ''A'') (JStr ''A'') True 1 1 None,
         SkipQuestion ''q2'' None,
         Complete None None None,
         Abandon]
   \<and> run [TrackInteraction Click None None None None,
          StartQuestion ''q1'' MultipleChoice None,
          AnswerQuestion ''q1'' (JStr ''A'') (JStr ''A'') True 1 1 None,
          SkipQuestion ''q2'' None,
          Complete None None None,
          Abandon]
         (snd (perform (Complete (Some 1) (Some 1) None) (example_this, example_page)))
       = (None, snd (perform (Complete (Some 1) (Some 1) None) (example_this, example_page)))"
proof -
  have a: "is_terminal (Complete (Some 1) (Some 1) None)"
    by simp
  have b: "list_all is_mutating
        [TrackInteraction Click None None None None,
         StartQuestion ''q1'' MultipleChoice None,
         AnswerQuestion ''q1'' (JStr ''A'') (JStr ''A'') True 1 1 None,
         SkipQuestion ''q2'' None,
         Complete None None None,
         Abandon]"
    by simp
  from a b terminal_states_absorbing [OF a b, of example_this example_page]
  show ?thesis by blast
qed

subsection \<open>Timestamps and session ids of emitted events\<close>

text \<open>
  C5, as the code has it. Every event a public call or the constructor hands to a sink
  is either a legacy completion event, which carries no \<open>sessionId\<close>, or an
  interaction, question or session event whose \<open>sessionId\<close> is the session's id and
  whose \<open>timestamp\<close> is a reading of \<open>Date.now()\<close> taken during that call.
\<close>

theorem events_carry_ids:
  "list_all (well_stamped (sessionId (state this)) (readings e (snd (snd (perform c (this, e))))))
     (emitted e (snd (snd (perform c (this, e)))))
   \<and> list_all (well_stamped (sessionId (state (fst (snd (new_BlockTracker cfg e)))))
                (readings e (snd (snd (new_BlockTracker cfg e)))))
       (emitted e (snd (snd (new_BlockTracker cfg e))))"
proof
  show "list_all (well_stamped (sessionId (state this)) (readings e (snd (snd (perform c (this, e))))))
          (emitted e (snd (snd (perform c (this, e)))))"
    unfolding list_all_iff
    using perform_emitted [of e c this] sent_events_stamped [of _ c this e] by blast
next
  show "list_all (well_stamped (sessionId (state (fst (snd (new_BlockTracker cfg e)))))
                (readings e (snd (snd (new_BlockTracker cfg e)))))
          (emitted e (snd (snd (new_BlockTracker cfg e))))"
    unfolding list_all_iff
    using extends_emitted [OF new_BlockTracker_extends, of e cfg]
      started_events_stamped [of _ cfg e] by blast
qed

text \<open>
  C5 as stated fails: \<open>complete()\<close> on the example tracker emits, last, a legacy
  completion event, and that event's \<open>sessionId\<close> is not the session's id.
\<close>

theorem events_carry_ids_counterexample:
  "emitted example_page
     (snd (snd (perform (Complete None None None) (example_this, example_page))))
     \<noteq> []
   \<and> event_sessionId (last (emitted example_page
        (snd (snd (perform (Complete None None None) (example_this, example_page))))))
     \<noteq> Some (sessionId (state example_this))"
  by (simp add: complete_active example_tracker_parts example_config_defaults Let_def
      emitted_def new_effects_def env_fields post_effects_def example_tracker_page)

text \<open>The four events \<open>complete()\<close> emits on the example tracker, all well stamped.\<close>

theorem events_carry_ids_witness:
  "emitted example_page
     (snd (snd (perform (Complete None None None) (example_this, example_page))))
   = [BLOCK_SESSION (session_event SessionCompleted
        (Some \<lparr> sd_score = None, sd_maxScore = None, sd_timeSpent = Some 30,
                sd_additionalData = None \<rparr>) 30 1050 (example_this\<lparr> isCompleted := True \<rparr>)),
      BLOCK_SESSION (session_event SessionCompleted
        (Some \<lparr> sd_score = None, sd_maxScore = None, sd_timeSpent = Some 30,
                sd_additionalData = None \<rparr>) 30 1050 (example_this\<lparr> isCompleted := True \<rparr>)),
      BLOCK_COMPLETION (legacy_event None None (Some 30) None),
      BLOCK_COMPLETION (legacy_event None None (Some 30) None)]
   \<and> list_all (well_stamped (sessionId (state example_this))
                (readings example_page
                   (snd (snd (perform (Complete None None None) (example_this, example_page))))))
       (emitted example_page
          (snd (snd (perform (Complete None None None) (example_this, example_page)))))"
proof -
  have "emitted example_page
     (snd (snd (perform (Complete None None None) (example_this, example_page))))
   = [BLOCK_SESSION (session_event SessionCompleted
        (Some \<lparr> sd_score = None, sd_maxScore = None, sd_timeSpent = Some 30,
                sd_additionalData = None \<rparr>) 30 1050 (example_this\<lparr> isCompleted := True \<rparr>)),
      BLOCK_SESSION (session_event SessionCompleted
        (Some \<lparr> sd_score = None, sd_maxScore = None, sd_timeSpent = Some 30,
                sd_additionalData = None \<rparr>) 30 1050 (example_this\<lparr> isCompleted := True \<rparr>)),
      BLOCK_COMPLETION (legacy_event None None (Some 30) None),
      BLOCK_COMPLETION (legacy_event None None (Some 30) None)]"
    by (simp add: complete_active example_tracker_parts example_config_defaults Let_def
      emitted_def new_effects_def env_fields post_effects_def example_tracker_page)
  with events_carry_ids [of example_this example_page "Complete None None None" example_config]
  show ?thesis by blast
qed

subsection \<open>Accuracy rate of a session summary\<close>

text \<open>
  C6. In the summary of every session event a public call or the constructor emits,
  \<open>accuracyRate\<close> is undefined when the session has no answered question event, and
  otherwise is the number of answered events with \<open>isCorrect = true\<close> divided by the
  number of answered events.
\<close>

theorem accuracy_rate_of_summary:
  "list_all (\<lambda>se. sm_accuracyRate (se_summary se) = accuracy_rate (questions (state this)))
     (session_events (emitted e (snd (snd (perform c (this, e))))))
   \<and> list_all (\<lambda>se. sm_accuracyRate (se_summary se)
                     = accuracy_rate (questions (state (fst (snd (new_BlockTracker cfg e))))))
       (session_events (emitted e (snd (snd (new_BlockTracker cfg e)))))"
  unfolding list_all_iff
proof (intro conjI ballI)
  fix se
  assume "se \<in> set (session_events (emitted e (snd (snd (perform c (this, e))))))"
  then obtain ty d ts where "se_summary se = session_summary ty d ts (state this)"
    using emitted_summaries by blast
  then show "sm_accuracyRate (se_summary se) = accuracy_rate (questions (state this))"
    by (simp add: summary_accuracy)
next
  fix se
  assume "se \<in> set (session_events (emitted e (snd (snd (new_BlockTracker cfg e)))))"
  then obtain ty d ts
    where "se_summary se = session_summary ty d ts (state (fst (snd (new_BlockTracker cfg e))))"
    using constructed_summaries by blast
  then show "sm_accuracyRate (se_summary se)
               = accuracy_rate (questions (state (fst (snd (new_BlockTracker cfg e)))))"
    by (simp add: summary_accuracy)
qed

text \<open>Completing the example quiz (two answers, one correct) reports the rate 1/2.\<close>

theorem accuracy_rate_of_summary_witness:
  "session_events (emitted example_quiz_page
     (snd (snd (perform (Complete None None None) (example_quiz_this, example_quiz_page))))) \<noteq> []
   \<and> list_all (\<lambda>se. sm_accuracyRate (se_summary se) = Some (1 / 2))
       (session_events (emitted example_quiz_page
          (snd (snd (perform (Complete None None None) (example_quiz_this, example_quiz_page))))))"
proof -
  have "session_events (emitted example_quiz_page
     (snd (snd (perform (Complete None None None) (example_quiz_this, example_quiz_page))))) \<noteq> []"
    unfolding example_quiz_completed by simp
  moreover have "list_all (\<lambda>se. sm_accuracyRate (se_summary se) = Some (1 / 2))
       (session_events (emitted example_quiz_page
          (snd (snd (perform (Complete None None None) (example_quiz_this, example_quiz_page))))))"
    using accuracy_rate_of_summary
      [of example_quiz_this example_quiz_page "Complete None None None" example_config]
    by (simp add: example_quiz_rates)
  ultimately show ?thesis by blast
qed

subsection \<open>Average time per question of a session summary\<close>

text \<open>
  C3, as the code has it. In the summary of every session event a public call or the
  constructor emits, \<open>averageTimePerQuestion\<close> is the sum of \<open>timeToAnswer\<close> over all
  answered question events, an absent \<open>timeToAnswer\<close> counting as 0, divided by the
  number of answered events; it is undefined exactly when there is no answered event.
\<close>

theorem average_time_of_summary:
  "list_all (\<lambda>se. sm_averageTimePerQuestion (se_summary se)
                   = mean_answer_time (questions (state this)))
     (session_events (emitted e (snd (snd (perform c (this, e))))))
   \<and> list_all (\<lambda>se. sm_averageTimePerQuestion (se_summary se)
                     = mean_answer_time (questions (state (fst (snd (new_BlockTracker cfg e))))))
       (session_events (emitted e (snd (snd (new_BlockTracker cfg e)))))"
  unfolding list_all_iff
proof (intro conjI ballI)
  fix se
  assume "se \<in> set (session_events (emitted e (snd (snd (perform c (this, e))))))"
  then obtain ty d ts where "se_summary se = session_summary ty d ts (state this)"
    using emitted_summaries by blast
  then show "sm_averageTimePerQuestion (se_summary se) = mean_answer_time (questions (state this))"
    by (simp add: summary_average)
next
  fix se
  assume "se \<in> set (session_events (emitted e (snd (snd (new_BlockTracker cfg e)))))"
  then obtain ty d ts
    where "se_summary se = session_summary ty d ts (state (fst (snd (new_BlockTracker cfg e))))"
    using constructed_summaries by blast
  then show "sm_averageTimePerQuestion (se_summary se)
               = mean_answer_time (questions (state (fst (snd (new_BlockTracker cfg e)))))"
    by (simp add: summary_average)
qed

text \<open>
  C3 as stated fails: in the example quiz one answer took 20 ms and the other has no
  \<open>timeToAnswer\<close>; the mean over the defined values is 20, the summary reports 10.
\<close>

theorem average_time_of_summary_counterexample:
  "sm_averageTimePerQuestion (se_summary (hd (session_events (emitted example_quiz_page
     (snd (snd (perform (Complete None None None) (example_quiz_this, example_quiz_page))))))))
     = Some 10
   \<and> mean_defined_time (questions (state example_quiz_this)) = Some 20
   \<and> sm_averageTimePerQuestion (se_summary (hd (session_events (emitted example_quiz_page
     (snd (snd (perform (Complete None None None) (example_quiz_this, example_quiz_page))))))))
     \<noteq> mean_defined_time (questions (state example_quiz_this))"
  unfolding example_quiz_completed
  by (simp add: session_event_summary summary_average example_quiz_rates)

text \<open>Completing the example quiz reports the average 10.\<close>

theorem average_time_of_summary_witness:
  "session_events (emitted example_quiz_page
     (snd (snd (perform (Complete None None None) (example_quiz_this, example_quiz_page))))) \<noteq> []
   \<and> list_all (\<lambda>se. sm_averageTimePerQuestion (se_summary se) = Some 10)
       (session_events (emitted example_quiz_page
          (snd (snd (perform (Complete None None None) (example_quiz_this, example_quiz_page))))))"
proof -
  have "session_events (emitted example_quiz_page
     (snd (snd (perform (Complete None None None) (example_quiz_this, example_quiz_page))))) \<noteq> []"
    unfolding example_quiz_completed by simp
  moreover have "list_all (\<lambda>se. sm_averageTimePerQuestion (se_summary se) = Some 10)
       (session_events (emitted example_quiz_page
          (snd (snd (perform (Complete None None None) (example_quiz_this, example_quiz_page))))))"
    using average_time_of_summary
      [of example_quiz_this example_quiz_page "Complete None None None" example_config]
    by (simp add: example_quiz_rates)
  ultimately show ?thesis by blast
qed

subsection \<open>Counters agree with the recorded question events\<close>

text \<open>
  C1. For a tracker constructed with a fresh session (the restore path is not taken),
  after any sequence of calls (the six recording and ending calls, and also listener
  registration, timer ticks and page unload) \<open>totalQuestions\<close> is the number of
  question events with \<open>eventType = answered\<close> and \<open>correctQuestions\<close> is the number
  of answered events with \<open>isCorrect = true\<close>. The sequence is arbitrary, so this holds
  after every call.
\<close>

theorem counters_match_events:
  assumes "\<not> restores (default_config c) e"
  shows "counters_ok (state (fst (snd (run cs (snd (new_BlockTracker c e))))))"
proof -
  obtain this e' where s: "snd (new_BlockTracker c e) = (this, e')"
    by (cases "snd (new_BlockTracker c e)")
  have "state this = held_state (fst (restoreOrCreateSession (default_config c) e))"
    using new_BlockTracker_state(1) [of c e] by (simp add: s)
  then have "counters_ok (state this)"
    using fresh_counters [OF assms] by simp
  then show ?thesis
    unfolding s by (rule run_counters)
qed

text \<open>The example quiz: two answers counted, one of them correct.\<close>

theorem counters_match_events_witness:
  "\<not> restores (default_config example_config) example_env
   \<and> counters_ok (state (fst (snd (run example_quiz_calls
                                      (snd (new_BlockTracker example_config example_env))))))
   \<and> totalQuestions (state example_quiz_this) = 2
   \<and> correctQuestions (state example_quiz_this) = 1"
  using counters_match_events [OF example_fresh, of example_quiz_calls] example_fresh
  by (simp add: example_quiz_parts)

subsection \<open>The open question is cleared by every recorded answer\<close>

text \<open>
  C4, as the code has it. While questions are tracked and the session is not
  completed, \<open>startQuestion\<close> sets \<open>currentQuestionId\<close> to its id, and every
  \<open>answerQuestion\<close> call, whatever its id, clears \<open>currentQuestionId\<close> and
  \<open>currentQuestionStartTime\<close>, appends one answered event with the given id, answer
  and correctness, and increments \<open>totalQuestions\<close>; when the id is not that of the open
  question the event has no \<open>timeToAnswer\<close>.
\<close>

theorem answer_clears_current_question:
  assumes "cfg_trackQuestions (config this)" and "\<not> isCompleted this"
  shows "currentQuestionId (state (fst (snd (startQuestion q k x (this, e))))) = Some q
    \<and> currentQuestionId (state (fst (snd (answerQuestion q2 a c b s m opts (this, e))))) = None
    \<and> currentQuestionStartTime (state (fst (snd (answerQuestion q2 a c b s m opts (this, e)))))
        = None
    \<and> totalQuestions (state (fst (snd (answerQuestion q2 a c b s m opts (this, e)))))
        = totalQuestions (state this) + 1
    \<and> (\<exists>ev. questions (state (fst (snd (answerQuestion q2 a c b s m opts (this, e)))))
               = questions (state this) @ [ev]
             \<and> qe_eventType ev = QAnswered \<and> qe_questionId ev = q2
             \<and> qe_answer ev = Some a \<and> qe_isCorrect ev = Some b
             \<and> (currentQuestionId (state this) \<noteq> Some q2 \<longrightarrow> qe_timeToAnswer ev = None))"
  using assms
  by (simp add: startQuestion_active answerQuestion_active Let_def answered_event_def
      time_to_answer_def split: option.split)

text \<open>
  C4 as stated fails: with \<open>q1\<close> open on the example tracker, answering \<open>q2\<close> leaves
  \<open>currentQuestionId\<close> different from \<open>q1\<close>.
\<close>

theorem answer_clears_current_question_counterexample:
  "currentQuestionId (state (fst (snd (run [StartQuestion ''q1'' MultipleChoice None]
      (example_this, example_page))))) = Some ''q1''
   \<and> currentQuestionId (state (fst (snd (run [StartQuestion ''q1'' MultipleChoice None,
        AnswerQuestion ''q2'' (JStr ''B'') (JStr ''A'') False 0 1 None]
      (example_this, example_page))))) \<noteq> Some ''q1''"
  by (simp add: example_eval)

text \<open>On the example tracker: \<open>q1\<close> is opened, then answering \<open>q2\<close> clears it.\<close>

theorem answer_clears_current_question_witness:
  "currentQuestionId (state (fst (snd (startQuestion ''q1'' MultipleChoice None
      (example_this, example_page))))) = Some ''q1''
   \<and> currentQuestionId (state (fst (snd (answerQuestion ''q2'' (JStr ''B'') (JStr ''A'') False 0 1 None
      (fst (snd (startQuestion ''q1'' MultipleChoice None (example_this, example_page))),
       snd (snd (startQuestion ''q1'' MultipleChoice None (example_this, example_page)))))))) = None"
proof -
  let ?s1 = "snd (startQuestion ''q1'' MultipleChoice None (example_this, example_page))"
  have a: "cfg_trackQuestions (config example_this)" "\<not> isCompleted example_this"
    by (simp_all add: example_tracker_parts example_config_defaults)
  have b: "cfg_trackQuestions (config (fst ?s1))" "\<not> isCompleted (fst ?s1)"
    by (simp_all add: example_eval)
  from answer_clears_current_question [OF a, of "''q1''" MultipleChoice None example_page]
    answer_clears_current_question [OF b]
  show ?thesis by blast
qed

subsection \<open>Restore at construction\<close>



subsection \<open>Abandonment keeps the persisted record\<close>

text \<open>
  C10. \<open>abandon\<close> leaves storage as it was. No call other than \<open>complete\<close> removes an
  existing record under the tracker's key, and \<open>complete\<close> on a persisting, not yet
  completed tracker removes it (when \<open>removeItem\<close> does not throw). Restoration does
  not look at completion: when the record under the key is the tracker's current state,
  a tracker constructed with the same configuration after \<open>abandon\<close> has the abandoned
  session's whole state, hence its \<open>sessionId\<close>, and is not completed.
\<close>

theorem abandon_keeps_record:
  "localStorage (snd (snd (abandon (this, e)))) = localStorage e
   \<and> (\<not> is_complete c \<and> localStorage e (cfg_sessionStorageKey (config this)) \<noteq> None \<longrightarrow>
        localStorage (snd (snd (perform c (this, e)))) (cfg_sessionStorageKey (config this))
          \<noteq> None)
   \<and> (cfg_persistSession (config this) \<and> \<not> isCompleted this
        \<and> \<not> localStorage_throws e RemoveItem \<longrightarrow>
        localStorage (snd (snd (complete s m d (this, e)))) (cfg_sessionStorageKey (config this))
          = None)
   \<and> (synced this e \<and> cfg_persistSession (config this)
        \<and> blockId (state this) = Some (cfg_blockId (config this))
        \<and> \<not> localStorage_throws e GetItem \<and> default_config cfg = config this \<longrightarrow>
        isCompleted (fst (snd (abandon (this, e))))
        \<and> state (fst (snd (new_BlockTracker cfg (snd (snd (abandon (this, e)))))))
            = state this
        \<and> \<not> isCompleted (fst (snd (new_BlockTracker cfg (snd (snd (abandon (this, e))))))))"
proof (intro conjI impI)
  show "localStorage (snd (snd (abandon (this, e)))) = localStorage e"
    by (rule abandon_frame)
next
  assume "\<not> is_complete c \<and> localStorage e (cfg_sessionStorageKey (config this)) \<noteq> None"
  then show "localStorage (snd (snd (perform c (this, e)))) (cfg_sessionStorageKey (config this))
          \<noteq> None"
    by (simp add: perform_keeps_record)
next
  assume "cfg_persistSession (config this) \<and> \<not> isCompleted this
        \<and> \<not> localStorage_throws e RemoveItem"
  then show "localStorage (snd (snd (complete s m d (this, e))))
          (cfg_sessionStorageKey (config this)) = None"
    by (simp add: complete_clears_record)
next
  assume h: "synced this e \<and> cfg_persistSession (config this)
        \<and> blockId (state this) = Some (cfg_blockId (config this))
        \<and> \<not> localStorage_throws e GetItem \<and> default_config cfg = config this"
  show "isCompleted (fst (snd (abandon (this, e))))"
    by (rule abandon_frame)
  have "synced this (snd (snd (abandon (this, e))))"
    using h by (simp add: synced_def abandon_frame)
  then show "state (fst (snd (new_BlockTracker cfg (snd (snd (abandon (this, e)))))))
            = state this"
    using h by (intro restore_synced) (simp_all add: abandon_frame)
  show "\<not> isCompleted (fst (snd (new_BlockTracker cfg (snd (snd (abandon (this, e)))))))"
    by (simp add: new_BlockTracker_state)
qed

text \<open>The example quiz, abandoned and reopened; and completed instead.\<close>

theorem abandon_keeps_record_witness:
  "synced example_quiz_this example_quiz_page
   \<and> questions (state example_quiz_this) \<noteq> []
   \<and> isCompleted (fst (snd (abandon (example_quiz_this, example_quiz_page))))
   \<and> state (fst (snd (new_BlockTracker example_config
        (snd (snd (abandon (example_quiz_this, example_quiz_page)))))))
      = state example_quiz_this
   \<and> \<not> isCompleted (fst (snd (new_BlockTracker example_config
        (snd (snd (abandon (example_quiz_this, example_quiz_page)))))))
   \<and> localStorage (snd (snd (complete None None None (example_quiz_this, example_quiz_page))))
        ''blockTracker_quiz'' = None"
proof -
  have h: "synced example_quiz_this example_quiz_page
        \<and> cfg_persistSession (config example_quiz_this)
        \<and> blockId (state example_quiz_this) = Some (cfg_blockId (config example_quiz_this))
        \<and> \<not> localStorage_throws example_quiz_page GetItem
        \<and> default_config example_config = config example_quiz_this"
    by (simp add: example_quiz_synced example_quiz_parts example_config_defaults
        example_quiz_page_parts)
  have g: "cfg_persistSession (config example_quiz_this) \<and> \<not> isCompleted example_quiz_this
        \<and> \<not> localStorage_throws example_quiz_page RemoveItem"
    by (simp add: example_quiz_parts example_config_defaults example_quiz_page_parts)
  have k: "cfg_sessionStorageKey (config example_quiz_this) = ''blockTracker_quiz''"
    by (simp add: example_quiz_parts example_config_defaults)
  have q: "questions (state example_quiz_this) \<noteq> []"
    using example_quiz_parts(7) by auto
  from abandon_keeps_record [of example_quiz_this example_quiz_page Abandon None None None
      example_config] h g q
  show ?thesis unfolding k by blast
qed

end
